theory Spec2Isabelle
  imports Complex_Main
begin

section \<open>JavaScript values\<close>

text \<open>
  The handlers read the fields of a parsed request body. A field is absent
  (\<open>JUndefined\<close>) or a JSON value: null, a boolean, a number, a string, an array or
  an object, whose properties are listed with the binding that counts first. \<open>Num x\<close>
  is the number whose value is \<open>x\<close>; \<open>NaN\<close> and the infinities come out of conversions.
  \<open>JDate t\<close> is a Date object holding \<open>t\<close> milliseconds since the epoch and
  \<open>JInvalidDate\<close> is the Date built from a time value out of range. A string is a list
  of code units.
\<close>

datatype jsnum = Num real | NaN | PosInf | NegInf

datatype jsval =
    JUndefined
  | JNull
  | JBool bool
  | JNumber jsnum
  | JStr string
  | JArray "jsval list"
  | JObject "(string \<times> jsval) list"
  | JDate int
  | JInvalidDate

abbreviation JNum :: "real \<Rightarrow> jsval" where
  "JNum x \<equiv> JNumber (Num x)"

text \<open>
  What the handlers take from outside the sources: the conversions of the language
  between strings, numbers and dates, the value of \<open>t + h * 60 * 60 * 1000\<close> in the
  arithmetic of doubles when \<open>h\<close> is not a whole number, and two facts of the database
  schema, namely which rows of \<open>current_locations\<close> collide on its unique key and
  which row ids the comparison \<open>id = ?\<close> selects for a bound parameter.
\<close>

record 'k platform =
  string_to_number :: "string \<Rightarrow> jsnum"
  number_to_string :: "jsnum \<Rightarrow> string"
  date_to_string :: "jsval \<Rightarrow> string"
  double_time :: "int \<Rightarrow> real \<Rightarrow> jsnum"
  unique_key :: "jsval \<Rightarrow> jsval \<Rightarrow> 'k"
  id_equals :: "jsval \<Rightarrow> nat \<Rightarrow> bool"

fun truthy :: "jsval \<Rightarrow> bool" where
  "truthy JUndefined = False"
| "truthy JNull = False"
| "truthy (JBool b) = b"
| "truthy (JNumber (Num x)) = (x \<noteq> 0)"
| "truthy (JNumber NaN) = False"
| "truthy (JNumber PosInf) = True"
| "truthy (JNumber NegInf) = True"
| "truthy (JStr s) = (s \<noteq> [])"
| "truthy (JArray xs) = True"
| "truthy (JObject fs) = True"
| "truthy (JDate t) = True"
| "truthy JInvalidDate = True"

definition js_or :: "jsval \<Rightarrow> jsval \<Rightarrow> jsval" where
  "js_or a b = (if truthy a then a else b)"

text \<open>A destructuring default \<open>field = null\<close> applies to an absent field only.\<close>

definition default_null :: "jsval \<Rightarrow> jsval" where
  "default_null v = (if v = JUndefined then JNull else v)"

text \<open>\<open>v == null\<close> holds of null and undefined.\<close>

definition loosely_null :: "jsval \<Rightarrow> bool" where
  "loosely_null v = (v = JUndefined \<or> v = JNull)"

text \<open>\<open>Array.prototype.join\<close> with the separator \<open>,\<close>.\<close>

fun join_comma :: "string list \<Rightarrow> string" where
  "join_comma [] = []"
| "join_comma [x] = x"
| "join_comma (x # y # ys) = x @ '','' @ join_comma (y # ys)"

text \<open>
  \<open>String(v)\<close>. An array is the join of its elements, null and undefined elements
  giving the empty string; an object of a request body has no \<open>toString\<close> of its own.
\<close>

fun to_string :: "'k platform \<Rightarrow> jsval \<Rightarrow> string" where
  "to_string P JUndefined = ''undefined''"
| "to_string P JNull = ''null''"
| "to_string P (JBool b) = (if b then ''true'' else ''false'')"
| "to_string P (JNumber n) = number_to_string P n"
| "to_string P (JStr s) = s"
| "to_string P (JArray xs) =
     join_comma (map (\<lambda>x. if loosely_null x then [] else to_string P x) xs)"
| "to_string P (JObject fs) = ''[object Object]''"
| "to_string P (JDate t) = date_to_string P (JDate t)"
| "to_string P JInvalidDate = date_to_string P JInvalidDate"

text \<open>The conversion to a number; an array or an object is converted through its string.\<close>

fun to_number :: "'k platform \<Rightarrow> jsval \<Rightarrow> jsnum" where
  "to_number P JUndefined = NaN"
| "to_number P JNull = Num 0"
| "to_number P (JBool b) = Num (if b then 1 else 0)"
| "to_number P (JNumber n) = n"
| "to_number P (JStr s) = string_to_number P s"
| "to_number P (JArray xs) = string_to_number P (to_string P (JArray xs))"
| "to_number P (JObject fs) = string_to_number P (to_string P (JObject fs))"
| "to_number P (JDate t) = Num (real_of_int t)"
| "to_number P JInvalidDate = NaN"

text \<open>\<open>Number(v)\<close>, as a value.\<close>

definition Number :: "'k platform \<Rightarrow> jsval \<Rightarrow> jsval" where
  "Number P v = JNumber (to_number P v)"

text \<open>
  \<open>v.length\<close> for a value that is neither null nor undefined: the number of code
  units of a string, the number of elements of an array, the property of that name of
  an object, and undefined for a number, a boolean or a Date.
\<close>

fun length_of :: "jsval \<Rightarrow> jsval" where
  "length_of (JStr s) = JNum (real (length s))"
| "length_of (JArray xs) = JNum (real (length xs))"
| "length_of (JObject fs) = (case map_of fs ''length'' of Some v \<Rightarrow> v | None \<Rightarrow> JUndefined)"
| "length_of v = JUndefined"

text \<open>\<open>a < b\<close> on numbers: false as soon as one side is \<open>NaN\<close>.\<close>

fun num_less :: "jsnum \<Rightarrow> jsnum \<Rightarrow> bool" where
  "num_less (Num x) (Num y) = (x < y)"
| "num_less NaN b = False"
| "num_less a NaN = False"
| "num_less PosInf b = False"
| "num_less a NegInf = False"
| "num_less (Num x) PosInf = True"
| "num_less NegInf (Num y) = True"
| "num_less NegInf PosInf = True"

text \<open>\<open>v < c\<close> and \<open>v > c\<close> for a numeric literal \<open>c\<close>: \<open>v\<close> is converted to a number.\<close>

definition js_lt :: "'k platform \<Rightarrow> jsval \<Rightarrow> real \<Rightarrow> bool" where
  "js_lt P v c = num_less (to_number P v) (Num c)"

definition js_gt :: "'k platform \<Rightarrow> jsval \<Rightarrow> real \<Rightarrow> bool" where
  "js_gt P v c = num_less (Num c) (to_number P v)"

text \<open>\<open>new Date(n)\<close>: a time value is an integer of magnitude at most 8.64e15.\<close>

definition new_Date :: "jsnum \<Rightarrow> jsval" where
  "new_Date n =
     (case n of
        Num x \<Rightarrow>
          if \<bar>x\<bar> \<le> 8640000000000000
          then JDate (if 0 \<le> x then \<lfloor>x\<rfloor> else \<lceil>x\<rceil>)
          else JInvalidDate
      | _ \<Rightarrow> JInvalidDate)"

section \<open>The telemetry store and the event bus\<close>

record hist_row =
  h_id :: nat
  h_animal_id :: jsval
  h_collar_id :: jsval
  h_latitude :: jsval
  h_longitude :: jsval
  h_altitude_meters :: jsval
  h_accuracy_meters :: jsval
  h_speed_kmh :: jsval
  h_heading_degrees :: jsval
  h_recorded_at :: jsval
  h_battery_level :: jsval
  h_signal_quality :: jsval
  h_temperature_celsius :: jsval

record cur_row =
  c_animal_id :: jsval
  c_collar_id :: jsval
  c_latitude :: jsval
  c_longitude :: jsval
  c_recorded_at :: jsval
  c_battery_level :: jsval
  c_signal_quality :: jsval
  c_temperature_celsius :: jsval

record event =
  e_animal_id :: jsval
  e_collar_id :: jsval
  e_latitude :: jsval
  e_longitude :: jsval
  e_recorded_at :: jsval
  e_battery_level :: jsval
  e_signal_quality :: jsval
  e_temperature_celsius :: jsval

text \<open>The statements a handler passes to \<open>executeQuery\<close>, with their bound parameters.\<close>

datatype stmt =
    UpdateHistory "jsval list"
  | InsertHistory "jsval list"
  | UpsertCurrent "jsval list"
  | UpsertSentinel "jsval list"

text \<open>
  \<open>executeQuery\<close> is not part of the sources. Its callers read \<open>success\<close>, \<open>error\<close>,
  \<open>insertId\<close> and \<open>data\<close> from the object it resolves to, and wrap it in \<open>try\<close>: a call
  resolves to a success object, resolves to a failure object, or throws.
\<close>

record dbdata =
  d_insertId :: jsval
  d_insert_id :: jsval

datatype qres =
    Resolved jsval "dbdata option"
  | Failed string
  | Thrown string

text \<open>
  What one call of the ingestion handler meets from outside: the values of its first
  and second \<open>new Date()\<close>, the outcomes of its first and second \<open>executeQuery\<close>,
  and whether a subscriber makes \<open>emit\<close> throw.
\<close>

record world =
  clock1 :: int
  clock2 :: int
  query1 :: qres
  query2 :: qres
  emit_throws :: bool

record sys =
  animal_locations :: "hist_row list"
  auto_increment :: nat
  current_locations :: "cur_row list"
  issued :: "stmt list"
  emitted :: "event list"
  console :: "string list"

record response =
  http_status :: nat
  r_success :: bool
  r_message :: string
  r_id :: jsval
  r_error :: "string option"

record report =
  latitude :: jsval
  longitude :: jsval
  animal_id :: jsval
  collar_id :: jsval
  altitude_meters :: jsval
  accuracy_meters :: jsval
  speed_kmh :: jsval
  heading_degrees :: jsval
  recorded_at :: jsval
  battery_level :: jsval
  signal_quality :: jsval
  temperature_celsius :: jsval
  update_id :: jsval
  body_id :: jsval

subsection \<open>Statement semantics\<close>

text \<open>\<open>UPDATE animal_locations SET ... WHERE id = ?\<close>: every selected row is overwritten.\<close>

definition overwrite_row :: "hist_row \<Rightarrow> hist_row \<Rightarrow> hist_row" where
  "overwrite_row new old = new\<lparr>h_id := h_id old\<rparr>"

definition update_history :: "'k platform \<Rightarrow> jsval \<Rightarrow> hist_row \<Rightarrow> hist_row list \<Rightarrow> hist_row list" where
  "update_history P uid new rows =
     map (\<lambda>r. if id_equals P uid (h_id r) then overwrite_row new r else r) rows"

text \<open>\<open>INSERT INTO animal_locations\<close>: one row more, under the next id.\<close>

definition insert_history :: "hist_row \<Rightarrow> sys \<Rightarrow> sys" where
  "insert_history new s =
     s\<lparr>animal_locations := animal_locations s @ [new\<lparr>h_id := auto_increment s\<rparr>],
       auto_increment := Suc (auto_increment s)\<rparr>"

definition row_key :: "'k platform \<Rightarrow> cur_row \<Rightarrow> 'k" where
  "row_key P r = unique_key P (c_animal_id r) (c_collar_id r)"

text \<open>
  \<open>INSERT ... ON DUPLICATE KEY UPDATE\<close>: the row that collides with the new one on the
  unique key of the table is changed by \<open>upd\<close>; without a collision the new row is
  added. The key is the platform's: the schema is not among the sources.
\<close>

fun upsert :: "'k platform \<Rightarrow> cur_row \<Rightarrow> (cur_row \<Rightarrow> cur_row) \<Rightarrow> cur_row list \<Rightarrow> cur_row list" where
  "upsert P new upd [] = [new]"
| "upsert P new upd (r # rs) =
     (if row_key P r = row_key P new then upd r # rs else r # upsert P new upd rs)"

text \<open>The columns named after \<open>ON DUPLICATE KEY UPDATE\<close> for an attributed report.\<close>

definition mirror_fields :: "cur_row \<Rightarrow> cur_row \<Rightarrow> cur_row" where
  "mirror_fields new old =
     old\<lparr>c_latitude := c_latitude new, c_longitude := c_longitude new,
         c_recorded_at := c_recorded_at new, c_battery_level := c_battery_level new,
         c_signal_quality := c_signal_quality new,
         c_temperature_celsius := c_temperature_celsius new\<rparr>"

text \<open>The columns named after \<open>ON DUPLICATE KEY UPDATE\<close> for a raw point.\<close>

definition mirror_position :: "cur_row \<Rightarrow> cur_row \<Rightarrow> cur_row" where
  "mirror_position new old =
     old\<lparr>c_latitude := c_latitude new, c_longitude := c_longitude new,
         c_recorded_at := c_recorded_at new\<rparr>"

section \<open>Location ingestion: \<open>POST /gps\<close>\<close>

text \<open>The destructuring of the request body, with its \<open>= null\<close> defaults.\<close>

definition destructure :: "report \<Rightarrow> report" where
  "destructure b =
     b\<lparr>animal_id := default_null (animal_id b),
       collar_id := default_null (collar_id b),
       altitude_meters := default_null (altitude_meters b),
       accuracy_meters := default_null (accuracy_meters b),
       speed_kmh := default_null (speed_kmh b),
       heading_degrees := default_null (heading_degrees b),
       recorded_at := default_null (recorded_at b),
       battery_level := default_null (battery_level b),
       signal_quality := default_null (signal_quality b),
       temperature_celsius := default_null (temperature_celsius b)\<rparr>"

text \<open>\<open>recorded_at ? recorded_at : new Date()\<close>, the Date being built at time \<open>t\<close>.\<close>

definition stamp :: "int \<Rightarrow> report \<Rightarrow> jsval" where
  "stamp t r = (if truthy (recorded_at r) then recorded_at r else JDate t)"

text \<open>The twelve values bound to a statement on \<open>animal_locations\<close>, as a row.\<close>

definition history_row :: "'k platform \<Rightarrow> int \<Rightarrow> report \<Rightarrow> hist_row" where
  "history_row P t r =
     \<lparr>h_id = 0,
      h_animal_id = animal_id r,
      h_collar_id = collar_id r,
      h_latitude = Number P (latitude r),
      h_longitude = Number P (longitude r),
      h_altitude_meters = altitude_meters r,
      h_accuracy_meters = accuracy_meters r,
      h_speed_kmh = speed_kmh r,
      h_heading_degrees = heading_degrees r,
      h_recorded_at = stamp t r,
      h_battery_level = battery_level r,
      h_signal_quality = signal_quality r,
      h_temperature_celsius = temperature_celsius r\<rparr>"

definition history_params :: "hist_row \<Rightarrow> jsval list" where
  "history_params h =
     [h_animal_id h, h_collar_id h, h_latitude h, h_longitude h, h_altitude_meters h,
      h_accuracy_meters h, h_speed_kmh h, h_heading_degrees h, h_recorded_at h,
      h_battery_level h, h_signal_quality h, h_temperature_celsius h]"

text \<open>The eight values bound to the upsert on \<open>current_locations\<close>, as a row.\<close>

definition current_row :: "'k platform \<Rightarrow> int \<Rightarrow> report \<Rightarrow> cur_row" where
  "current_row P t r =
     \<lparr>c_animal_id = animal_id r,
      c_collar_id = collar_id r,
      c_latitude = Number P (latitude r),
      c_longitude = Number P (longitude r),
      c_recorded_at = stamp t r,
      c_battery_level = battery_level r,
      c_signal_quality = signal_quality r,
      c_temperature_celsius = temperature_celsius r\<rparr>"

definition current_params :: "cur_row \<Rightarrow> jsval list" where
  "current_params c =
     [c_animal_id c, c_collar_id c, c_latitude c, c_longitude c, c_recorded_at c,
      c_battery_level c, c_signal_quality c, c_temperature_celsius c]"

text \<open>The object passed to \<open>emit\<close> after the upsert's parameters.\<close>

definition live_event :: "cur_row \<Rightarrow> event" where
  "live_event c =
     \<lparr>e_animal_id = c_animal_id c,
      e_collar_id = c_collar_id c,
      e_latitude = c_latitude c,
      e_longitude = c_longitude c,
      e_recorded_at = c_recorded_at c,
      e_battery_level = c_battery_level c,
      e_signal_quality = c_signal_quality c,
      e_temperature_celsius = c_temperature_celsius c\<rparr>"

text \<open>
  The row and the event of a raw point: \<open>VALUES (0, NULL, ?, ?, ?)\<close>. The columns the
  statement does not name are null in a new row; the event has no such properties.
\<close>

definition sentinel_row :: "'k platform \<Rightarrow> int \<Rightarrow> report \<Rightarrow> cur_row" where
  "sentinel_row P t r =
     \<lparr>c_animal_id = JNum 0,
      c_collar_id = JNull,
      c_latitude = Number P (latitude r),
      c_longitude = Number P (longitude r),
      c_recorded_at = JDate t,
      c_battery_level = JNull,
      c_signal_quality = JNull,
      c_temperature_celsius = JNull\<rparr>"

definition raw_event :: "cur_row \<Rightarrow> event" where
  "raw_event c =
     \<lparr>e_animal_id = JNum 0,
      e_collar_id = JNull,
      e_latitude = c_latitude c,
      e_longitude = c_longitude c,
      e_recorded_at = c_recorded_at c,
      e_battery_level = JUndefined,
      e_signal_quality = JUndefined,
      e_temperature_celsius = JUndefined\<rparr>"

definition warn :: "string \<Rightarrow> sys \<Rightarrow> sys" where
  "warn m s = s\<lparr>console := console s @ [m]\<rparr>"

definition issue :: "stmt \<Rightarrow> sys \<Rightarrow> sys" where
  "issue q s = s\<lparr>issued := issued s @ [q]\<rparr>"

text \<open>\<open>try { gpsEmitter.emit('location', e) } catch (emitErr) { console.warn(m) }\<close>\<close>

definition emit :: "world \<Rightarrow> string \<Rightarrow> event \<Rightarrow> sys \<Rightarrow> sys" where
  "emit w m e s =
     (let s' = s\<lparr>emitted := emitted s @ [e]\<rparr>
      in if emit_throws w then warn m s' else s')"

definition reply :: "nat \<Rightarrow> bool \<Rightarrow> string \<Rightarrow> jsval \<Rightarrow> string option \<Rightarrow> response" where
  "reply c ok m i e =
     \<lparr>http_status = c, r_success = ok, r_message = m, r_id = i, r_error = e\<rparr>"

text \<open>The outermost \<open>catch\<close> of the handler.\<close>

definition route_error :: "sys \<Rightarrow> response \<times> sys" where
  "route_error s =
     (reply 500 False ''Internal server error'' JUndefined None, warn ''GPS route error:'' s)"

text \<open>The branch taken when the body carries \<open>update_id\<close> or \<open>id\<close>.\<close>

definition ingest_update :: "'k platform \<Rightarrow> world \<Rightarrow> report \<Rightarrow> jsval \<Rightarrow> sys \<Rightarrow> response \<times> sys" where
  "ingest_update P w r uid s =
     (let h = history_row P (clock1 w) r;
          s1 = issue (UpdateHistory (history_params h @ [uid])) s
      in case query1 w of
           Thrown e \<Rightarrow> route_error s1
         | Failed e \<Rightarrow>
             (reply 500 False ''Failed to update animal_locations'' JUndefined (Some e), s1)
         | Resolved i d \<Rightarrow>
             (let s2 = s1\<lparr>animal_locations := update_history P uid h (animal_locations s1)\<rparr>;
                  c = current_row P (clock2 w) r;
                  s3 = issue (UpsertCurrent (current_params c)) s2;
                  m = ''Failed to emit gps location event after update:'';
                  s4 = (case query2 w of
                          Thrown e \<Rightarrow>
                            warn ''Failed to upsert current_locations after gps update:'' s3
                        | Failed e \<Rightarrow> emit w m (live_event c) s3
                        | Resolved i' d' \<Rightarrow>
                            emit w m (live_event c)
                              (s3\<lparr>current_locations :=
                                    upsert P c (mirror_fields c) (current_locations s3)\<rparr>))
              in (reply 200 True ''GPS record updated'' uid None, s4)))"

text \<open>The branch taken when the report names an animal or a collar.\<close>

definition ingest_entity :: "'k platform \<Rightarrow> world \<Rightarrow> report \<Rightarrow> sys \<Rightarrow> response \<times> sys" where
  "ingest_entity P w r s =
     (let h = history_row P (clock1 w) r;
          s1 = issue (InsertHistory (history_params h)) s
      in case query1 w of
           Thrown e \<Rightarrow> route_error s1
         | Failed e \<Rightarrow> (reply 500 False ''Database error'' JUndefined (Some e), s1)
         | Resolved i d \<Rightarrow>
             (let s2 = insert_history h s1;
                  c = current_row P (clock2 w) r;
                  s3 = issue (UpsertCurrent (current_params c)) s2;
                  m = ''Failed to emit gps location event:'';
                  s4 = (case query2 w of
                          Thrown e \<Rightarrow> warn ''Failed to upsert current_locations:'' s3
                        | Failed e \<Rightarrow> emit w m (live_event c) s3
                        | Resolved i' d' \<Rightarrow>
                            emit w m (live_event c)
                              (s3\<lparr>current_locations :=
                                    upsert P c (mirror_fields c) (current_locations s3)\<rparr>))
              in (reply 200 True ''Animal location saved'' (js_or i JNull) None, s4)))"

text \<open>The fallback: the single row kept under the reserved \<open>animal_id = 0\<close>.\<close>

definition ingest_raw :: "'k platform \<Rightarrow> world \<Rightarrow> report \<Rightarrow> sys \<Rightarrow> response \<times> sys" where
  "ingest_raw P w r s =
     (let c = sentinel_row P (clock1 w) r;
          s1 = issue (UpsertSentinel [c_latitude c, c_longitude c, c_recorded_at c]) s
      in case query1 w of
           Thrown e \<Rightarrow>
             (reply 500 False ''Internal server error'' JUndefined None,
              warn ''Raw GPS upsert error:'' s1)
         | Failed e \<Rightarrow>
             (reply 500 False ''Database error'' JUndefined (Some e),
              warn ''Failed to upsert current_locations for raw gps:'' s1)
         | Resolved i d \<Rightarrow>
             (reply 200 True ''GPS coordinates saved (updated current location)'' JUndefined None,
              emit w ''Failed to emit gps location event (raw):'' (raw_event c)
                (s1\<lparr>current_locations :=
                      upsert P c (mirror_position c) (current_locations s1)\<rparr>)))"

definition ingest :: "'k platform \<Rightarrow> world \<Rightarrow> report \<Rightarrow> sys \<Rightarrow> response \<times> sys" where
  "ingest P w b s =
     (let r = destructure b;
          updateId = js_or (update_id b) (js_or (body_id b) JNull)
      in if truthy updateId then ingest_update P w r updateId s
         else if loosely_null (latitude r) \<or> loosely_null (longitude r)
           then (reply 400 False ''Missing coordinates'' JUndefined None, s)
         else if truthy (js_or (animal_id r) (collar_id r)) then ingest_entity P w r s
         else ingest_raw P w r s)"

section \<open>Virtual fences: \<open>createVirtualFence\<close>\<close>

record fence_body =
  f_name :: jsval
  f_description :: jsval
  f_center_latitude :: jsval
  f_center_longitude :: jsval
  f_radius_meters :: jsval
  f_fence_type :: jsval
  f_is_active :: jsval

record fence_row =
  vf_id :: nat
  vf_farm_id :: nat
  vf_name :: jsval
  vf_description :: jsval
  vf_center_latitude :: jsval
  vf_center_longitude :: jsval
  vf_radius_meters :: jsval
  vf_fence_type :: jsval
  vf_is_active :: bool
  vf_created_by :: nat

record fence_sys =
  virtual_fences :: "fence_row list"
  vf_auto_increment :: nat
  vf_console :: "string list"

record fence_response =
  fr_status :: nat
  fr_success :: bool
  fr_message :: string
  fr_id :: jsval

definition fence_reply :: "nat \<Rightarrow> bool \<Rightarrow> string \<Rightarrow> jsval \<Rightarrow> fence_response" where
  "fence_reply c ok m i = \<lparr>fr_status = c, fr_success = ok, fr_message = m, fr_id = i\<rparr>"

text \<open>The row bound to the \<open>INSERT INTO virtual_fences\<close>, for farm 1 and user 1.\<close>

definition fence_of :: "fence_body \<Rightarrow> fence_row" where
  "fence_of b =
     \<lparr>vf_id = 0,
      vf_farm_id = 1,
      vf_name = f_name b,
      vf_description = js_or (f_description b) JNull,
      vf_center_latitude = f_center_latitude b,
      vf_center_longitude = f_center_longitude b,
      vf_radius_meters = f_radius_meters b,
      vf_fence_type = js_or (f_fence_type b) (JStr ''custom''),
      vf_is_active = (f_is_active b \<noteq> JBool False),
      vf_created_by = 1\<rparr>"

definition insert_fence :: "fence_row \<Rightarrow> fence_sys \<Rightarrow> fence_sys" where
  "insert_fence f s =
     s\<lparr>virtual_fences := virtual_fences s @ [f\<lparr>vf_id := vf_auto_increment s\<rparr>],
       vf_auto_increment := Suc (vf_auto_increment s)\<rparr>"

text \<open>The \<open>catch\<close> of the handler.\<close>

definition fence_error :: "fence_sys \<Rightarrow> fence_response \<times> fence_sys" where
  "fence_error s =
     (fence_reply 500 False ''Internal server error'' JUndefined,
      s\<lparr>vf_console := vf_console s @ [''Create virtual fence error:'']\<rparr>)"

text \<open>
  The success reply reads \<open>result.data.insertId\<close>: on a success object without \<open>data\<close>
  that read throws, after the row has been inserted.
\<close>

definition createVirtualFence ::
    "'k platform \<Rightarrow> qres \<Rightarrow> fence_body \<Rightarrow> fence_sys \<Rightarrow> fence_response \<times> fence_sys" where
  "createVirtualFence P q b s =
     (if \<not> truthy (f_name b) \<or> \<not> truthy (f_center_latitude b)
         \<or> \<not> truthy (f_center_longitude b) \<or> \<not> truthy (f_radius_meters b)
      then (fence_reply 400 False ''Name, coordinates, and radius are required'' JUndefined, s)
      else if js_lt P (f_center_latitude b) (- 90) \<or> js_gt P (f_center_latitude b) 90
      then (fence_reply 400 False ''Latitude must be between -90 and 90'' JUndefined, s)
      else if js_lt P (f_center_longitude b) (- 180) \<or> js_gt P (f_center_longitude b) 180
      then (fence_reply 400 False ''Longitude must be between -180 and 180'' JUndefined, s)
      else if js_lt P (f_radius_meters b) 50 \<or> js_gt P (f_radius_meters b) 10000
      then (fence_reply 400 False ''Radius must be between 50 and 10000 meters'' JUndefined, s)
      else (case q of
              Resolved i None \<Rightarrow> fence_error (insert_fence (fence_of b) s)
            | Resolved i (Some d) \<Rightarrow>
                (fence_reply 201 True ''Virtual fence created successfully'' (d_insertId d),
                 insert_fence (fence_of b) s)
            | Failed e \<Rightarrow> fence_error s
            | Thrown e \<Rightarrow> fence_error s))"

section \<open>Device alerts: \<open>handleAlert\<close>\<close>

record alert_payload =
  p_farm_id :: jsval
  p_animal_id :: jsval
  p_collar_id :: jsval
  p_fence_id :: jsval
  p_alert_type :: jsval
  p_severity :: jsval
  p_alert :: jsval
  p_title :: jsval
  p_message :: jsval
  p_distance :: jsval
  p_motion :: jsval
  p_alert_data :: jsval
  p_lat :: jsval
  p_location_latitude :: jsval
  p_lon :: jsval
  p_location_longitude :: jsval
  p_triggered_at :: jsval
  p_status :: jsval
  p_auto_generated :: jsval

record alert_row =
  a_id :: nat
  a_farm_id :: jsval
  a_animal_id :: jsval
  a_collar_id :: jsval
  a_fence_id :: jsval
  a_alert_type :: string
  a_severity :: string
  a_title :: jsval
  a_message :: jsval
  a_alert_data :: jsval
  a_location_latitude :: jsval
  a_location_longitude :: jsval
  a_triggered_at :: jsval
  a_status :: string
  a_auto_generated :: jsval

record mail =
  m_subject :: string
  m_text :: string

text \<open>
  What one call of the alert handler meets from outside: the outcome of its
  \<open>executeQuery\<close>, whether the three SMTP variables of the environment are set, and
  whether \<open>sendEmail\<close> throws.
\<close>

record alert_world =
  aw_query :: qres
  aw_smtp_configured :: bool
  aw_send_throws :: bool

record alert_sys =
  alerts :: "alert_row list"
  al_auto_increment :: nat
  outbox :: "mail list"
  al_console :: "string list"

record alert_response =
  ar_status :: nat
  ar_success :: bool
  ar_message :: string
  ar_id :: jsval
  ar_error :: "string option"

definition MAX_ALERT_TYPE :: nat where
  "MAX_ALERT_TYPE = 100"

definition MAX_SEVERITY :: nat where
  "MAX_SEVERITY = 32"

definition MAX_TITLE :: nat where
  "MAX_TITLE = 255"

text \<open>\<open>raw.length > MAX ? raw.substring(0, MAX) : raw\<close> on a string.\<close>

definition cap :: "nat \<Rightarrow> string \<Rightarrow> string" where
  "cap n raw = (if length raw > n then take n raw else raw)"

text \<open>
  The same expression on the title, which is not converted to a string first. When the
  comparison is false the value is kept. When it is true, a string is cut; an array or
  an object has no \<open>substring\<close> and the call throws a TypeError: the result \<open>None\<close>.
\<close>

definition cap_title :: "'k platform \<Rightarrow> jsval \<Rightarrow> jsval option" where
  "cap_title P raw =
     (if js_gt P (length_of raw) (real MAX_TITLE)
      then (case raw of JStr t \<Rightarrow> Some (JStr (take MAX_TITLE t)) | _ \<Rightarrow> None)
      else Some raw)"

definition raw_alert_type :: "'k platform \<Rightarrow> alert_payload \<Rightarrow> string" where
  "raw_alert_type P p =
     (if truthy (p_alert_type p) then to_string P (p_alert_type p) else ''device'')"

definition raw_severity :: "'k platform \<Rightarrow> alert_payload \<Rightarrow> string" where
  "raw_severity P p =
     (if truthy (p_severity p) then to_string P (p_severity p) else ''medium'')"

definition raw_title :: "alert_payload \<Rightarrow> jsval" where
  "raw_title p = js_or (p_alert p) (js_or (p_title p) (JStr ''Device Alert''))"

text \<open>The three \<open>console.warn\<close> that follow the caps, each under its own test.\<close>

definition truncation_warnings :: "'k platform \<Rightarrow> alert_payload \<Rightarrow> string list" where
  "truncation_warnings P p =
     (if length (raw_alert_type P p) > MAX_ALERT_TYPE then [''Truncated alert_type from''] else [])
     @ (if length (raw_severity P p) > MAX_SEVERITY then [''Truncated severity from''] else [])
     @ (if js_gt P (length_of (raw_title p)) (real MAX_TITLE) then [''Truncated title from'']
        else [])"

text \<open>\<open>v ? Number(v) : null\<close>\<close>

definition number_or_null :: "'k platform \<Rightarrow> jsval \<Rightarrow> jsval" where
  "number_or_null P v = (if truthy v then Number P v else JNull)"

definition default_message :: "'k platform \<Rightarrow> alert_payload \<Rightarrow> string" where
  "default_message P p =
     ''distance='' @ to_string P (js_or (p_distance p) (JStr []))
       @ '' motion='' @ to_string P (js_or (p_motion p) (JStr []))"

text \<open>The row bound to the \<open>INSERT INTO alerts\<close>, for a title that has passed its cap.\<close>

definition alert_of :: "'k platform \<Rightarrow> alert_payload \<Rightarrow> jsval \<Rightarrow> alert_row" where
  "alert_of P p title =
     \<lparr>a_id = 0,
      a_farm_id = (if truthy (p_farm_id p) then Number P (p_farm_id p) else JNum 1),
      a_animal_id = number_or_null P (p_animal_id p),
      a_collar_id = number_or_null P (p_collar_id p),
      a_fence_id = number_or_null P (p_fence_id p),
      a_alert_type = cap MAX_ALERT_TYPE (raw_alert_type P p),
      a_severity = cap MAX_SEVERITY (raw_severity P p),
      a_title = title,
      a_message = js_or (p_message p) (JStr (default_message P p)),
      a_alert_data =
        (if truthy (p_alert_data p) then JStr (to_string P (p_alert_data p)) else JNull),
      a_location_latitude = number_or_null P (js_or (p_lat p) (p_location_latitude p)),
      a_location_longitude = number_or_null P (js_or (p_lon p) (p_location_longitude p)),
      a_triggered_at = (if truthy (p_triggered_at p) then p_triggered_at p else JNull),
      a_status = (if truthy (p_status p) then to_string P (p_status p) else ''active''),
      a_auto_generated =
        (if p_auto_generated p \<noteq> JUndefined then Number P (p_auto_generated p) else JNum 1)\<rparr>"

definition insert_alert :: "alert_row \<Rightarrow> alert_sys \<Rightarrow> alert_sys" where
  "insert_alert a s =
     s\<lparr>alerts := alerts s @ [a\<lparr>a_id := al_auto_increment s\<rparr>],
       al_auto_increment := Suc (al_auto_increment s)\<rparr>"

definition alert_mail :: "'k platform \<Rightarrow> alert_row \<Rightarrow> mail" where
  "alert_mail P a =
     \<lparr>m_subject = ''Cattle Farm Alert: '' @ to_string P (a_title a),
      m_text = ''Alert: '' @ to_string P (a_title a) @ [CHR 0x0A]
        @ ''Severity: '' @ a_severity a @ [CHR 0x0A]
        @ ''Message: '' @ to_string P (a_message a) @ [CHR 0x0A]
        @ ''Location: '' @ to_string P (a_location_latitude a) @ '', ''
        @ to_string P (a_location_longitude a)\<rparr>"

text \<open>
  \<open>try { await sendEmail(...) } catch (mailErr) { console.warn(...) }\<close>, run when SMTP
  is configured. The outbox holds the mails that were sent.
\<close>

definition notify :: "'k platform \<Rightarrow> alert_world \<Rightarrow> alert_row \<Rightarrow> alert_sys \<Rightarrow> alert_sys" where
  "notify P w a s =
     (if aw_smtp_configured w
      then (if aw_send_throws w
            then s\<lparr>al_console := al_console s @ [''Failed to send alert email:'']\<rparr>
            else s\<lparr>outbox := outbox s @ [alert_mail P a]\<rparr>)
      else s)"

text \<open>\<open>(data && (data.insertId || data.insert_id)) ? (data.insertId || data.insert_id) : null\<close>\<close>

definition inserted_id :: "dbdata option \<Rightarrow> jsval" where
  "inserted_id d =
     (case d of
        None \<Rightarrow> JNull
      | Some x \<Rightarrow>
          (if truthy (js_or (d_insertId x) (d_insert_id x))
           then js_or (d_insertId x) (d_insert_id x) else JNull))"

text \<open>The \<open>catch\<close> of the handler.\<close>

definition alert_error :: "alert_sys \<Rightarrow> alert_response \<times> alert_sys" where
  "alert_error s =
     (\<lparr>ar_status = 500, ar_success = False, ar_message = ''Internal server error'',
       ar_id = JUndefined, ar_error = None\<rparr>,
      s\<lparr>al_console := al_console s @ [''Device alert route error:'']\<rparr>)"

text \<open>
  The title is capped before the warnings are logged and before the statement is run:
  when its cap throws, the handler goes to its \<open>catch\<close> with nothing logged or stored.
\<close>

definition handleAlert ::
    "'k platform \<Rightarrow> alert_world \<Rightarrow> alert_payload \<Rightarrow> alert_sys \<Rightarrow> alert_response \<times> alert_sys" where
  "handleAlert P w p s =
     (case cap_title P (raw_title p) of
        None \<Rightarrow> alert_error s
      | Some title \<Rightarrow>
          (let a = alert_of P p title;
               s1 = s\<lparr>al_console := al_console s @ truncation_warnings P p\<rparr>
           in case aw_query w of
                Thrown e \<Rightarrow> alert_error s1
              | Failed e \<Rightarrow>
                  (\<lparr>ar_status = 500, ar_success = False, ar_message = ''Failed to insert alert'',
                    ar_id = JUndefined, ar_error = Some e\<rparr>,
                   s1\<lparr>al_console := al_console s1 @ [''Failed to insert alert:'']\<rparr>)
              | Resolved i d \<Rightarrow>
                  (\<lparr>ar_status = 201, ar_success = True, ar_message = ''Alert recorded'',
                    ar_id = inserted_id d, ar_error = None\<rparr>,
                   notify P w a (insert_alert a s1))))"

section \<open>Remote configuration: \<open>updateRemoteConfig\<close>\<close>

record config_body =
  cfg_sensorThreshold :: jsval
  cfg_soundEnabled :: jsval
  cfg_lightsEnabled :: jsval
  cfg_wifiSSID :: jsval
  cfg_wifiPassword :: jsval
  cfg_device_id :: jsval
  cfg_expires_hours :: jsval

datatype command_type = Control | WifiUpdate

datatype command_status = Pending | Delivered | Acknowledged

text \<open>
  The payload before \<open>JSON.stringify\<close>: \<open>sound\<close> and \<open>lights\<close> are present when the
  request defines them; \<open>ssid\<close> and \<open>password\<close> are the value or null.
\<close>

datatype payload =
    ControlPayload "bool option" "bool option"
  | WifiPayload jsval jsval

text \<open>
  Modelled from the spec: the default of the \<open>status\<close> column of \<open>device_commands\<close>,
  which the \<open>INSERT\<close> does not name and the schema, absent from the sources, decides.
  A Command is created in the pending state.
\<close>

definition initial_status :: command_status where
  "initial_status = Pending"

record command_row =
  cmd_id :: nat
  cmd_device_id :: jsval
  cmd_type :: command_type
  cmd_payload :: payload
  cmd_expires_at :: jsval
  cmd_status :: command_status

record settings_row =
  default_sound_enabled :: jsval
  default_lights_enabled :: jsval
  sensor_threshold :: jsval

datatype setting = DefaultSoundEnabled | DefaultLightsEnabled | SensorThreshold

datatype config_stmt =
    InsertCommand jsval command_type payload jsval
  | UpdateSettings "(setting \<times> jsval) list"

text \<open>The statements on \<open>system_settings\<close>, the table shared by all devices.\<close>

fun is_settings_update :: "config_stmt \<Rightarrow> bool" where
  "is_settings_update (UpdateSettings us) = True"
| "is_settings_update (InsertCommand dev ty pl ex) = False"

record config_world =
  cw_now :: int
  cw_query1 :: qres
  cw_query2 :: qres

record config_sys =
  device_commands :: "command_row list"
  dc_auto_increment :: nat
  system_settings :: "settings_row list"
  cs_issued :: "config_stmt list"
  cs_console :: "string list"

record config_response =
  cr_status :: nat
  cr_success :: bool
  cr_message :: string
  cr_inserted :: "(command_type \<times> jsval) list"
  cr_echo :: "(jsval \<times> jsval \<times> jsval) option"

definition config_reply ::
    "nat \<Rightarrow> bool \<Rightarrow> string \<Rightarrow> (command_type \<times> jsval) list \<Rightarrow> (jsval \<times> jsval \<times> jsval) option
      \<Rightarrow> config_response" where
  "config_reply c ok m ins e =
     \<lparr>cr_status = c, cr_success = ok, cr_message = m, cr_inserted = ins, cr_echo = e\<rparr>"

definition config_log :: "string \<Rightarrow> config_sys \<Rightarrow> config_sys" where
  "config_log m s = s\<lparr>cs_console := cs_console s @ [m]\<rparr>"

definition config_issue :: "config_stmt \<Rightarrow> config_sys \<Rightarrow> config_sys" where
  "config_issue q s = s\<lparr>cs_issued := cs_issued s @ [q]\<rparr>"

text \<open>
  \<open>new Date(now.getTime() + ((expires_hours || dflt) * 60 * 60 * 1000))\<close>. For a whole
  number of hours the products and the sum are integers, which the arithmetic of doubles
  gives exactly wherever the sum is a time value; for other hours the number is the
  platform's. \<open>NaN\<close> and the infinities go through the product and the sum unchanged.
\<close>

definition expiry :: "'k platform \<Rightarrow> int \<Rightarrow> jsval \<Rightarrow> real \<Rightarrow> jsval" where
  "expiry P now hours dflt =
     new_Date
       (case to_number P (js_or hours (JNum dflt)) of
          Num h \<Rightarrow>
            if real_of_int \<lfloor>h\<rfloor> = h
            then Num (real_of_int now + h * 60 * 60 * 1000)
            else double_time P now h
        | n \<Rightarrow> n)"

text \<open>\<open>typeof soundEnabled !== 'undefined' || typeof lightsEnabled !== 'undefined'\<close>\<close>

definition control_requested :: "config_body \<Rightarrow> bool" where
  "control_requested b = (cfg_soundEnabled b \<noteq> JUndefined \<or> cfg_lightsEnabled b \<noteq> JUndefined)"

text \<open>\<open>wifiSSID || wifiPassword\<close>\<close>

definition wifi_requested :: "config_body \<Rightarrow> bool" where
  "wifi_requested b = truthy (js_or (cfg_wifiSSID b) (cfg_wifiPassword b))"

definition control_payload :: "config_body \<Rightarrow> payload" where
  "control_payload b =
     ControlPayload
       (if cfg_soundEnabled b \<noteq> JUndefined then Some (truthy (cfg_soundEnabled b)) else None)
       (if cfg_lightsEnabled b \<noteq> JUndefined then Some (truthy (cfg_lightsEnabled b)) else None)"

definition wifi_payload :: "config_body \<Rightarrow> payload" where
  "wifi_payload b = WifiPayload (js_or (cfg_wifiSSID b) JNull) (js_or (cfg_wifiPassword b) JNull)"

definition insert_command ::
    "jsval \<Rightarrow> command_type \<Rightarrow> payload \<Rightarrow> jsval \<Rightarrow> config_sys \<Rightarrow> config_sys" where
  "insert_command dev ty pl ex s =
     s\<lparr>device_commands := device_commands s @
          [\<lparr>cmd_id = dc_auto_increment s, cmd_device_id = dev, cmd_type = ty,
            cmd_payload = pl, cmd_expires_at = ex, cmd_status = initial_status\<rparr>],
       dc_auto_increment := Suc (dc_auto_increment s)\<rparr>"

text \<open>\<open>insertRes.data && insertRes.data.insertId ? insertRes.data.insertId : null\<close>\<close>

definition command_id :: "dbdata option \<Rightarrow> jsval" where
  "command_id d =
     (case d of
        None \<Rightarrow> JNull
      | Some x \<Rightarrow> (if truthy (d_insertId x) then d_insertId x else JNull))"

text \<open>The \<open>catch\<close> of the handler.\<close>

definition config_error :: "config_sys \<Rightarrow> config_response \<times> config_sys" where
  "config_error s =
     (config_reply 500 False ''Failed to update remote config'' [] None,
      config_log ''Remote config update error:'' s)"

text \<open>The second block of the device branch; \<open>q\<close> is the outcome of its \<open>INSERT\<close>.\<close>

definition enqueue_wifi ::
    "'k platform \<Rightarrow> config_world \<Rightarrow> qres \<Rightarrow> config_body \<Rightarrow> (command_type \<times> jsval) list
      \<Rightarrow> config_sys \<Rightarrow> config_response \<times> config_sys" where
  "enqueue_wifi P w q b inserted s =
     (if wifi_requested b
      then (let ex = expiry P (cw_now w) (cfg_expires_hours b) 24;
                s1 = config_issue (InsertCommand (cfg_device_id b) WifiUpdate (wifi_payload b) ex) s
            in case q of
                 Thrown e \<Rightarrow> config_error s1
               | Failed e \<Rightarrow>
                   (config_reply 500 False ''Failed to enqueue wifi_update command'' [] None,
                    config_log ''Failed to enqueue wifi_update command:'' s1)
               | Resolved i d \<Rightarrow>
                   (config_reply 200 True ''Commands enqueued''
                      (inserted @ [(WifiUpdate, command_id d)]) None,
                    insert_command (cfg_device_id b) WifiUpdate (wifi_payload b) ex s1))
      else (config_reply 200 True ''Commands enqueued'' inserted None, s))"

text \<open>The device branch: a control command, then a wifi command.\<close>

definition enqueue_commands ::
    "'k platform \<Rightarrow> config_world \<Rightarrow> config_body \<Rightarrow> config_sys \<Rightarrow> config_response \<times> config_sys" where
  "enqueue_commands P w b s =
     (if control_requested b
      then (let ex = expiry P (cw_now w) (cfg_expires_hours b) 1;
                s1 = config_issue
                       (InsertCommand (cfg_device_id b) Control (control_payload b) ex) s
            in case cw_query1 w of
                 Thrown e \<Rightarrow> config_error s1
               | Failed e \<Rightarrow>
                   (config_reply 500 False ''Failed to enqueue control command'' [] None,
                    config_log ''Failed to enqueue control command:'' s1)
               | Resolved i d \<Rightarrow>
                   enqueue_wifi P w (cw_query2 w) b [(Control, command_id d)]
                     (insert_command (cfg_device_id b) Control (control_payload b) ex s1))
      else enqueue_wifi P w (cw_query1 w) b [] s)"

text \<open>The assignments pushed onto \<open>updates\<close> and \<open>params\<close>.\<close>

definition settings_updates :: "config_body \<Rightarrow> (setting \<times> jsval) list" where
  "settings_updates b =
     (if cfg_soundEnabled b \<noteq> JUndefined
      then [(DefaultSoundEnabled, JNum (if truthy (cfg_soundEnabled b) then 1 else 0))] else [])
     @ (if cfg_lightsEnabled b \<noteq> JUndefined
        then [(DefaultLightsEnabled, JNum (if truthy (cfg_lightsEnabled b) then 1 else 0))] else [])
     @ (if cfg_sensorThreshold b \<noteq> JUndefined
        then [(SensorThreshold, cfg_sensorThreshold b)] else [])"

fun assign :: "settings_row \<Rightarrow> setting \<times> jsval \<Rightarrow> settings_row" where
  "assign r (DefaultSoundEnabled, v) = r\<lparr>default_sound_enabled := v\<rparr>"
| "assign r (DefaultLightsEnabled, v) = r\<lparr>default_lights_enabled := v\<rparr>"
| "assign r (SensorThreshold, v) = r\<lparr>sensor_threshold := v\<rparr>"

text \<open>\<open>UPDATE system_settings SET ...\<close> without \<open>WHERE\<close>: every row is assigned.\<close>

definition update_settings :: "(setting \<times> jsval) list \<Rightarrow> settings_row list \<Rightarrow> settings_row list" where
  "update_settings us rows = map (\<lambda>r. foldl assign r us) rows"

definition echo :: "config_body \<Rightarrow> (jsval \<times> jsval \<times> jsval) option" where
  "echo b = Some (cfg_sensorThreshold b, cfg_soundEnabled b, cfg_lightsEnabled b)"

definition accepted :: "config_body \<Rightarrow> config_response" where
  "accepted b =
     config_reply 200 True
       ''Accepted but system settings update may not be persisted (check schema)'' [] (echo b)"

text \<open>The end of the branch without \<open>device_id\<close>.\<close>

definition finish_defaults :: "config_body \<Rightarrow> config_sys \<Rightarrow> config_response \<times> config_sys" where
  "finish_defaults b s =
     (if wifi_requested b
      then (config_reply 400 False
              ''Provide device_id to perform wifi update on a specific device'' [] None,
            config_log
              (''Global wifi update requested without device_id. Not storing wifi ''
               @ ''password globally for security. Provide device_id to perform wifi ''
               @ ''update per-device.'') s)
      else (config_reply 200 True ''Remote config updated'' [] (echo b), s))"

definition update_defaults ::
    "config_world \<Rightarrow> config_body \<Rightarrow> config_sys \<Rightarrow> config_response \<times> config_sys" where
  "update_defaults w b s =
     (let us = settings_updates b
      in if length us > 0
         then (let s1 = config_issue (UpdateSettings us) s
               in case cw_query1 w of
                    Thrown e \<Rightarrow> (accepted b, config_log ''Failed updating system_settings:'' s1)
                  | Failed e \<Rightarrow>
                      (accepted b,
                       config_log
                         ''system_settings update failed (maybe table/columns missing):'' s1)
                  | Resolved i d \<Rightarrow>
                      finish_defaults b
                        (s1\<lparr>system_settings := update_settings us (system_settings s1)\<rparr>))
         else finish_defaults b s)"

definition updateRemoteConfig ::
    "'k platform \<Rightarrow> config_world \<Rightarrow> config_body \<Rightarrow> config_sys \<Rightarrow> config_response \<times> config_sys" where
  "updateRemoteConfig P w b s =
     (if truthy (cfg_device_id b) then enqueue_commands P w b s else update_defaults w b s)"

section \<open>Command polling\<close>

text \<open>
  Modelled from the spec: the Command of the queue that \<open>poll\<close> reads. The handler of
  \<open>GET /commands?device_id=X\<close> is not among the sources (the device sketch that
  calls it is). The spec: a Command is
  \<open>{ id, deviceId, commandType, payload, createdAt, expiresAt, status }\<close>.
\<close>

record command =
  k_id :: nat
  k_device :: jsval
  k_type :: command_type
  k_payload :: payload
  k_created_at :: int
  k_expires_at :: int
  k_status :: command_status

text \<open>
  Modelled from the spec: expiry, which the absent handler evaluates. The spec: a
  predicate evaluated at read time, \<open>now > expiresAt\<close>.
\<close>

definition expired :: "int \<Rightarrow> command \<Rightarrow> bool" where
  "expired now c = (now > k_expires_at c)"

text \<open>
  Modelled from the spec: \<open>poll\<close>, the absent handler. The spec: \<open>poll(deviceId)\<close>
  returns all non-expired commands for the device not yet acknowledged.
\<close>

definition poll :: "int \<Rightarrow> jsval \<Rightarrow> command list \<Rightarrow> command list" where
  "poll now dev queue =
     filter (\<lambda>c. k_device c = dev \<and> k_status c \<noteq> Acknowledged \<and> \<not> expired now c) queue"

section \<open>Sample platform, stores and requests\<close>

text \<open>
  A platform for requests whose fields are numbers, booleans, null or absent: the unique
  key of \<open>current_locations\<close> is \<open>animal_id\<close>, \<open>id = ?\<close> selects the row whose id is the
  number bound, and the string conversions and the arithmetic at fractional hours,
  which such requests do not reach, are constant.
\<close>

definition numeric_platform :: "jsval platform" where
  "numeric_platform =
     \<lparr>string_to_number = (\<lambda>s. NaN),
      number_to_string = (\<lambda>n. []),
      date_to_string = (\<lambda>d. []),
      double_time = (\<lambda>t h. NaN),
      unique_key = (\<lambda>a c. a),
      id_equals = (\<lambda>v n. v = JNum (real n))\<rparr>"

definition empty_sys :: sys where
  "empty_sys =
     \<lparr>animal_locations = [], auto_increment = 1, current_locations = [],
      issued = [], emitted = [], console = []\<rparr>"

definition empty_report :: report where
  "empty_report =
     \<lparr>latitude = JUndefined, longitude = JUndefined, animal_id = JUndefined,
      collar_id = JUndefined, altitude_meters = JUndefined, accuracy_meters = JUndefined,
      speed_kmh = JUndefined, heading_degrees = JUndefined, recorded_at = JUndefined,
      battery_level = JUndefined, signal_quality = JUndefined,
      temperature_celsius = JUndefined, update_id = JUndefined, body_id = JUndefined\<rparr>"

text \<open>The first report of the spec's end-to-end scenario.\<close>

definition report7 :: report where
  "report7 = empty_report\<lparr>latitude := JNum 40.1, longitude := JNum (- 73.9), animal_id := JNum 7\<rparr>"

definition all_well :: world where
  "all_well =
     \<lparr>clock1 = 1000, clock2 = 1001, query1 = Resolved JUndefined None,
      query2 = Resolved JUndefined None, emit_throws = False\<rparr>"

definition empty_fence_sys :: fence_sys where
  "empty_fence_sys = \<lparr>virtual_fences = [], vf_auto_increment = 1, vf_console = []\<rparr>"

definition paddock :: fence_body where
  "paddock =
     \<lparr>f_name = JStr ''North paddock'', f_description = JUndefined,
      f_center_latitude = JNum 1.5, f_center_longitude = JNum 36.8,
      f_radius_meters = JNum 500, f_fence_type = JUndefined, f_is_active = JUndefined\<rparr>"

definition inserted_as :: "real \<Rightarrow> qres" where
  "inserted_as n = Resolved JUndefined (Some \<lparr>d_insertId = JNum n, d_insert_id = JUndefined\<rparr>)"

definition empty_alert_sys :: alert_sys where
  "empty_alert_sys = \<lparr>alerts = [], al_auto_increment = 1, outbox = [], al_console = []\<rparr>"

definition empty_payload :: alert_payload where
  "empty_payload =
     \<lparr>p_farm_id = JUndefined, p_animal_id = JUndefined, p_collar_id = JUndefined,
      p_fence_id = JUndefined, p_alert_type = JUndefined, p_severity = JUndefined,
      p_alert = JUndefined, p_title = JUndefined, p_message = JUndefined,
      p_distance = JUndefined, p_motion = JUndefined, p_alert_data = JUndefined,
      p_lat = JUndefined, p_location_latitude = JUndefined, p_lon = JUndefined,
      p_location_longitude = JUndefined, p_triggered_at = JUndefined, p_status = JUndefined,
      p_auto_generated = JUndefined\<rparr>"

definition empty_config_sys :: config_sys where
  "empty_config_sys =
     \<lparr>device_commands = [], dc_auto_increment = 1,
      system_settings =
        [\<lparr>default_sound_enabled = JNum 1, default_lights_enabled = JNum 1,
          sensor_threshold = JNum 50\<rparr>],
      cs_issued = [], cs_console = []\<rparr>"

definition empty_config :: config_body where
  "empty_config =
     \<lparr>cfg_sensorThreshold = JUndefined, cfg_soundEnabled = JUndefined,
      cfg_lightsEnabled = JUndefined, cfg_wifiSSID = JUndefined,
      cfg_wifiPassword = JUndefined, cfg_device_id = JUndefined,
      cfg_expires_hours = JUndefined\<rparr>"

definition sample_queue :: "command list" where
  "sample_queue =
     [\<lparr>k_id = 1, k_device = JNum 5, k_type = Control,
       k_payload = ControlPayload (Some True) None, k_created_at = 0,
       k_expires_at = 1500, k_status = Pending\<rparr>,
      \<lparr>k_id = 2, k_device = JNum 5, k_type = WifiUpdate,
       k_payload = WifiPayload (JStr ''barn'') (JStr ''hay''), k_created_at = 0,
       k_expires_at = 9000, k_status = Pending\<rparr>]"

definition tracked_sys :: sys where
  "tracked_sys =
     \<lparr>animal_locations =
        [\<lparr>h_id = 1, h_animal_id = JNum 7, h_collar_id = JNull, h_latitude = JNum 40,
          h_longitude = JNum (- 73.8), h_altitude_meters = JNum 12, h_accuracy_meters = JNull,
          h_speed_kmh = JNull, h_heading_degrees = JNull, h_recorded_at = JDate 500,
          h_battery_level = JNum 80, h_signal_quality = JNull,
          h_temperature_celsius = JNull\<rparr>],
      auto_increment = 2,
      current_locations =
        [\<lparr>c_animal_id = JNum 0, c_collar_id = JNull, c_latitude = JNum 39, c_longitude = JNum (- 73),
          c_recorded_at = JDate 400, c_battery_level = JNum 55, c_signal_quality = JNull,
          c_temperature_celsius = JNull\<rparr>,
         \<lparr>c_animal_id = JNum 7, c_collar_id = JStr ''C-7'', c_latitude = JNum 40,
          c_longitude = JNum (- 73.8), c_recorded_at = JDate 500, c_battery_level = JNum 80,
          c_signal_quality = JNull, c_temperature_celsius = JNull\<rparr>],
      issued = [], emitted = [], console = []\<rparr>"





definition upsert_refused :: world where
  "upsert_refused = all_well\<lparr>query2 := Failed ''ER_LOCK_WAIT_TIMEOUT''\<rparr>"

definition equator_paddock :: fence_body where
  "equator_paddock = paddock\<lparr>f_center_latitude := JNum 0\<rparr>"

definition long_alert :: alert_payload where
  "long_alert =
     empty_payload\<lparr>p_alert_type := JStr (replicate 120 CHR ''t''),
       p_severity := JStr (replicate 40 CHR ''s''),
       p_title := JStr (replicate 300 CHR ''x'')\<rparr>"

definition array_title :: alert_payload where
  "array_title = empty_payload\<lparr>p_title := JArray (replicate 256 (JStr ''x''))\<rparr>"

definition object_title :: alert_payload where
  "object_title = empty_payload\<lparr>p_alert := JObject [(''length'', JNum 300)]\<rparr>"

definition mail_down :: alert_world where
  "mail_down = \<lparr>aw_query = inserted_as 1, aw_smtp_configured = True, aw_send_throws = True\<rparr>"

definition both_kinds :: config_body where
  "both_kinds =
     empty_config\<lparr>cfg_device_id := JNum 5, cfg_soundEnabled := JBool True,
       cfg_wifiSSID := JStr ''barn'', cfg_wifiPassword := JStr ''hay''\<rparr>"

definition inserts_succeed :: config_world where
  "inserts_succeed = \<lparr>cw_now = 1000, cw_query1 = inserted_as 1, cw_query2 = inserted_as 2\<rparr>"

definition wifi_and_sound :: config_body where
  "wifi_and_sound =
     empty_config\<lparr>cfg_soundEnabled := JBool True, cfg_wifiSSID := JStr ''barn'',
       cfg_wifiPassword := JStr ''hay''\<rparr>"

definition wifi_only :: config_body where
  "wifi_only = empty_config\<lparr>cfg_wifiSSID := JStr ''barn'', cfg_wifiPassword := JStr ''hay''\<rparr>"

definition settings_down :: config_world where
  "settings_down =
     \<lparr>cw_now = 1000, cw_query1 = Failed ''ER_BAD_FIELD_ERROR'', cw_query2 = inserted_as 2\<rparr>"

definition insert_succeeds :: alert_world where
  "insert_succeeds =
     \<lparr>aw_query = inserted_as 1, aw_smtp_configured = False, aw_send_throws = False\<rparr>"

section \<open>Unfolding the samples\<close>

lemmas sample_defs = numeric_platform_def empty_sys_def empty_report_def report7_def all_well_def
  tracked_sys_def

section \<open>The current-location table under upserts\<close>

lemma row_key_mirror_fields: "row_key P (mirror_fields c r) = row_key P r"
  by (simp add: row_key_def mirror_fields_def)




lemma upsert_same_key:
  assumes "\<And>r. row_key P (upd r) = row_key P r"
    and "distinct (map (row_key P) rows)"
  shows "filter (\<lambda>r. row_key P r = row_key P new) (upsert P new upd rows) =
           [case find (\<lambda>r. row_key P r = row_key P new) rows of
              None \<Rightarrow> new | Some old \<Rightarrow> upd old]"
  using assms
proof (induction rows)
  case Nil
  then show ?case by simp
next
  case (Cons r rs)
  show ?case
  proof (cases "row_key P r = row_key P new")
    case True
    from Cons.prems(2) have "row_key P r \<notin> row_key P ` set rs"
      by simp
    then have "\<forall>x\<in>set rs. row_key P x \<noteq> row_key P new"
      unfolding True by (metis imageI)
    then have "filter (\<lambda>r. row_key P r = row_key P new) rs = []"
      by (simp add: filter_empty_conv)
    with True Cons.prems(1) show ?thesis by simp
  next
    case False
    with Cons show ?thesis by simp
  qed
qed

lemma upsert_other_keys:
  assumes "\<And>r. row_key P (upd r) = row_key P r"
  shows "filter (\<lambda>r. row_key P r \<noteq> row_key P new) (upsert P new upd rows) =
           filter (\<lambda>r. row_key P r \<noteq> row_key P new) rows"
  using assms by (induction rows) auto

lemma find_key_unique:
  "distinct (map (row_key P) rows) \<Longrightarrow> old \<in> set rows \<Longrightarrow> row_key P old = k
     \<Longrightarrow> find (\<lambda>r. row_key P r = k) rows = Some old"
  by (induction rows) (auto split: if_splits)

section \<open>Command polling: expiry\<close>

text \<open>
  C5. A command whose \<open>expiresAt\<close> lies in the past at poll time is never returned by
  \<open>poll\<close>, whatever its stored status and device, and it is not counted either: the
  answer is the one the queue without that command gets.
\<close>

theorem poll_skips_expired:
  assumes "k_expires_at c < now"
  shows "c \<notin> set (poll now dev queue)
         \<and> poll now dev (before @ c # after) = poll now dev (before @ after)"
  using assms by (simp add: poll_def expired_def)

theorem poll_skips_expired_witness:
  "k_expires_at (hd sample_queue) < 2000
   \<and> hd sample_queue \<notin> set (poll 2000 (JNum 5) sample_queue)
   \<and> poll 2000 (JNum 5) ([] @ hd sample_queue # tl sample_queue)
       = poll 2000 (JNum 5) ([] @ tl sample_queue)
   \<and> poll 2000 (JNum 5) sample_queue = tl sample_queue
   \<and> poll 1000 (JNum 5) sample_queue = sample_queue"
proof -
  have past: "k_expires_at (hd sample_queue) < 2000"
    by (simp add: sample_queue_def)
  have rest: "poll 2000 (JNum 5) sample_queue = tl sample_queue"
    by (simp add: sample_queue_def poll_def expired_def)
  have all: "poll 1000 (JNum 5) sample_queue = sample_queue"
    by (simp add: sample_queue_def poll_def expired_def)
  from poll_skips_expired [OF past, of "JNum 5" sample_queue "[]" "tl sample_queue"] past rest all
  show ?thesis by simp
qed

section \<open>Location ingestion: routing and branches\<close>

lemma upsert_mirror_fields_row:
  assumes "distinct (map (row_key P) rows)"
  shows "\<exists>c. filter (\<lambda>r. row_key P r = row_key P new) (upsert P new (mirror_fields new) rows) = [c]
           \<and> c_latitude c = c_latitude new \<and> c_longitude c = c_longitude new
           \<and> c_recorded_at c = c_recorded_at new \<and> c_battery_level c = c_battery_level new
           \<and> c_signal_quality c = c_signal_quality new
           \<and> c_temperature_celsius c = c_temperature_celsius new
           \<and> (\<forall>old\<in>set rows. row_key P old = row_key P new \<longrightarrow>
                 c_animal_id c = c_animal_id old \<and> c_collar_id c = c_collar_id old)
           \<and> (row_key P new \<notin> row_key P ` set rows \<longrightarrow> c = new)"
proof -
  let ?c = "case find (\<lambda>r. row_key P r = row_key P new) rows of
              None \<Rightarrow> new | Some old \<Rightarrow> mirror_fields new old"
  have one: "filter (\<lambda>r. row_key P r = row_key P new) (upsert P new (mirror_fields new) rows) = [?c]"
    using assms by (simp add: upsert_same_key row_key_mirror_fields)
  have vals: "c_latitude ?c = c_latitude new \<and> c_longitude ?c = c_longitude new
           \<and> c_recorded_at ?c = c_recorded_at new \<and> c_battery_level ?c = c_battery_level new
           \<and> c_signal_quality ?c = c_signal_quality new
           \<and> c_temperature_celsius ?c = c_temperature_celsius new"
    by (simp add: mirror_fields_def split: option.split)
  have kept: "\<forall>old\<in>set rows. row_key P old = row_key P new \<longrightarrow>
                 c_animal_id ?c = c_animal_id old \<and> c_collar_id ?c = c_collar_id old"
  proof (intro ballI impI)
    fix old assume "old \<in> set rows" "row_key P old = row_key P new"
    with assms have "find (\<lambda>r. row_key P r = row_key P new) rows = Some old"
      by (simp add: find_key_unique)
    then show "c_animal_id ?c = c_animal_id old \<and> c_collar_id ?c = c_collar_id old"
      by (simp add: mirror_fields_def)
  qed
  have fresh: "row_key P new \<notin> row_key P ` set rows \<longrightarrow> ?c = new"
  proof
    assume "row_key P new \<notin> row_key P ` set rows"
    then have "find (\<lambda>r. row_key P r = row_key P new) rows = None"
      unfolding find_None_iff by (metis imageI)
    then show "?c = new" by simp
  qed
  from one vals kept fresh show ?thesis by blast
qed


lemma truthy_default_null [simp]: "truthy (default_null v) = truthy v"
  by (simp add: default_null_def)

lemma destructure_fields [simp]:
  "latitude (destructure b) = latitude b"
  "longitude (destructure b) = longitude b"
  "animal_id (destructure b) = default_null (animal_id b)"
  "collar_id (destructure b) = default_null (collar_id b)"
  "altitude_meters (destructure b) = default_null (altitude_meters b)"
  "accuracy_meters (destructure b) = default_null (accuracy_meters b)"
  "speed_kmh (destructure b) = default_null (speed_kmh b)"
  "heading_degrees (destructure b) = default_null (heading_degrees b)"
  "recorded_at (destructure b) = default_null (recorded_at b)"
  "battery_level (destructure b) = default_null (battery_level b)"
  "signal_quality (destructure b) = default_null (signal_quality b)"
  "temperature_celsius (destructure b) = default_null (temperature_celsius b)"
  "update_id (destructure b) = update_id b"
  "body_id (destructure b) = body_id b"
  by (simp_all add: destructure_def)


lemma ingest_routes_entity:
  assumes "\<not> truthy (update_id b)" "\<not> truthy (body_id b)"
      and "\<not> loosely_null (latitude b)" "\<not> loosely_null (longitude b)"
      and "truthy (animal_id b) \<or> truthy (collar_id b)"
  shows "ingest P w b s = ingest_entity P w (destructure b) s"
  using assms by (auto simp add: ingest_def Let_def js_or_def)


lemma ingest_entity_resolved:
  assumes "query1 w = Resolved i d" "query2 w = Resolved i' d'"
  shows "animal_locations (snd (ingest_entity P w r s)) =
           animal_locations s @ [(history_row P (clock1 w) r)\<lparr>h_id := auto_increment s\<rparr>]"
    and "current_locations (snd (ingest_entity P w r s)) =
           upsert P (current_row P (clock2 w) r)
             (mirror_fields (current_row P (clock2 w) r)) (current_locations s)"
    and "fst (ingest_entity P w r s) = reply 200 True ''Animal location saved'' (js_or i JNull) None"
    and "emitted (snd (ingest_entity P w r s)) = emitted s @ [live_event (current_row P (clock2 w) r)]"
  using assms
  by (simp_all add: ingest_entity_def Let_def insert_history_def issue_def emit_def warn_def)




lemma current_row_key:
  "row_key P (current_row P t (destructure b)) =
     unique_key P (default_null (animal_id b)) (default_null (collar_id b))"
  by (simp add: row_key_def current_row_def)

lemma current_row_fields:
  "c_latitude (current_row P t r) = Number P (latitude r)"
  "c_longitude (current_row P t r) = Number P (longitude r)"
  "c_recorded_at (current_row P t r) = stamp t r"
  "c_battery_level (current_row P t r) = battery_level r"
  "c_signal_quality (current_row P t r) = signal_quality r"
  "c_temperature_celsius (current_row P t r) = temperature_celsius r"
  "c_animal_id (current_row P t r) = animal_id r"
  "c_collar_id (current_row P t r) = collar_id r"
  by (simp_all add: current_row_def)

lemma current_row_ignores_history_only_fields:
  "current_row P t (destructure (b\<lparr>altitude_meters := a, accuracy_meters := a', speed_kmh := v,
      heading_degrees := g\<rparr>)) = current_row P t (destructure b)"
  by (simp add: current_row_def stamp_def destructure_def)

section \<open>Location ingestion: attributed reports\<close>

text \<open>
  C2. A report with coordinates \<open>la\<close>, \<open>lo\<close> that names an animal or a collar and
  carries no \<open>update_id\<close>, whose two statements succeed, adds exactly one row to
  \<open>animal_locations\<close> and leaves exactly one row of \<open>current_locations\<close> under the
  entity's key, with the report's coordinates. Of a row that was already there, only
  latitude, longitude, recorded_at, battery, signal and temperature are overwritten; rows
  under other keys are untouched; altitude, accuracy, speed and heading do not reach the
  table at all.
\<close>

theorem ingest_attributed_report:
  assumes fresh: "\<not> truthy (update_id b)" "\<not> truthy (body_id b)"
      and coords: "latitude b = JNum la" "longitude b = JNum lo"
      and entity: "truthy (animal_id b) \<or> truthy (collar_id b)"
      and ok: "query1 w = Resolved i d" "query2 w = Resolved i' d'"
      and inv: "distinct (map (row_key P) (current_locations s))"
      and key: "k = unique_key P (default_null (animal_id b)) (default_null (collar_id b))"
  shows "case ingest P w b s of (resp, s') \<Rightarrow>
           r_success resp
           \<and> (\<exists>h. animal_locations s' = animal_locations s @ [h]
                  \<and> h_latitude h = JNum la \<and> h_longitude h = JNum lo
                  \<and> h_altitude_meters h = default_null (altitude_meters b))
           \<and> (\<exists>c. filter (\<lambda>r. row_key P r = k) (current_locations s') = [c]
                  \<and> c_latitude c = JNum la \<and> c_longitude c = JNum lo
                  \<and> c_recorded_at c = stamp (clock2 w) (destructure b)
                  \<and> c_battery_level c = default_null (battery_level b)
                  \<and> c_signal_quality c = default_null (signal_quality b)
                  \<and> c_temperature_celsius c = default_null (temperature_celsius b)
                  \<and> (\<forall>old\<in>set (current_locations s). row_key P old = k \<longrightarrow>
                        c_animal_id c = c_animal_id old \<and> c_collar_id c = c_collar_id old))
           \<and> filter (\<lambda>r. row_key P r \<noteq> k) (current_locations s')
               = filter (\<lambda>r. row_key P r \<noteq> k) (current_locations s)
           \<and> current_locations s'
               = current_locations (snd (ingest P w (b\<lparr>altitude_meters := a,
                   accuracy_meters := a', speed_kmh := v, heading_degrees := g\<rparr>) s))"
proof -
  let ?r = "destructure b"
  let ?new = "current_row P (clock2 w) ?r"
  let ?b' = "b\<lparr>altitude_meters := a, accuracy_meters := a', speed_kmh := v, heading_degrees := g\<rparr>"
  have present: "\<not> loosely_null (latitude b)" "\<not> loosely_null (longitude b)"
    using coords by (simp_all add: loosely_null_def)
  have route: "ingest P w b s = ingest_entity P w ?r s"
    using fresh present entity by (rule ingest_routes_entity)
  have route': "ingest P w ?b' s = ingest_entity P w (destructure ?b') s"
    by (rule ingest_routes_entity) (use fresh present entity in simp_all)
  have k: "row_key P ?new = k"
    by (simp add: current_row_key key)
  have resp: "r_success (fst (ingest P w b s))"
    by (simp add: route ingest_entity_resolved(3) [OF ok] reply_def)
  have hist: "\<exists>h. animal_locations (snd (ingest P w b s)) = animal_locations s @ [h]
                  \<and> h_latitude h = JNum la \<and> h_longitude h = JNum lo
                  \<and> h_altitude_meters h = default_null (altitude_meters b)"
    by (simp add: route ingest_entity_resolved(1) [OF ok] history_row_def Number_def coords)
  have cur: "current_locations (snd (ingest P w b s)) =
               upsert P ?new (mirror_fields ?new) (current_locations s)"
    by (simp add: route ingest_entity_resolved(2) [OF ok])
  have cur': "current_locations (snd (ingest P w ?b' s)) =
               upsert P ?new (mirror_fields ?new) (current_locations s)"
    by (simp only: route' ingest_entity_resolved(2) [OF ok]
        current_row_ignores_history_only_fields)
  from upsert_mirror_fields_row [OF inv, of ?new] obtain c where
    c: "filter (\<lambda>r. row_key P r = k) (upsert P ?new (mirror_fields ?new) (current_locations s)) = [c]"
      "c_latitude c = c_latitude ?new" "c_longitude c = c_longitude ?new"
      "c_recorded_at c = c_recorded_at ?new" "c_battery_level c = c_battery_level ?new"
      "c_signal_quality c = c_signal_quality ?new"
      "c_temperature_celsius c = c_temperature_celsius ?new"
      "\<forall>old\<in>set (current_locations s). row_key P old = k \<longrightarrow>
         c_animal_id c = c_animal_id old \<and> c_collar_id c = c_collar_id old"
    unfolding k by blast
  have row: "\<exists>c. filter (\<lambda>r. row_key P r = k) (current_locations (snd (ingest P w b s))) = [c]
                  \<and> c_latitude c = JNum la \<and> c_longitude c = JNum lo
                  \<and> c_recorded_at c = stamp (clock2 w) (destructure b)
                  \<and> c_battery_level c = default_null (battery_level b)
                  \<and> c_signal_quality c = default_null (signal_quality b)
                  \<and> c_temperature_celsius c = default_null (temperature_celsius b)
                  \<and> (\<forall>old\<in>set (current_locations s). row_key P old = k \<longrightarrow>
                        c_animal_id c = c_animal_id old \<and> c_collar_id c = c_collar_id old)"
    unfolding cur using c
    by (intro exI [of _ c]) (simp add: current_row_fields Number_def coords)
  have others: "filter (\<lambda>r. row_key P r \<noteq> k) (current_locations (snd (ingest P w b s)))
               = filter (\<lambda>r. row_key P r \<noteq> k) (current_locations s)"
    using upsert_other_keys [of P "mirror_fields ?new" ?new "current_locations s"]
    unfolding k cur by (simp add: row_key_mirror_fields)
  from resp hist row others cur cur' show ?thesis
    by (simp add: case_prod_beta)
qed

theorem ingest_attributed_report_witness:
  "\<not> truthy (update_id report7) \<and> \<not> truthy (body_id report7)
   \<and> latitude report7 = JNum 40.1 \<and> longitude report7 = JNum (- 73.9)
   \<and> (truthy (animal_id report7) \<or> truthy (collar_id report7))
   \<and> distinct (map (row_key numeric_platform) (current_locations tracked_sys))
   \<and> (\<exists>old\<in>set (current_locations tracked_sys). row_key numeric_platform old = JNum 7)
   \<and> (case ingest numeric_platform all_well report7 tracked_sys of (resp, s') \<Rightarrow>
         r_success resp
         \<and> length (animal_locations s') = 2
         \<and> (\<exists>c. filter (\<lambda>r. row_key numeric_platform r = JNum 7) (current_locations s') = [c]
                \<and> c_latitude c = JNum 40.1 \<and> c_longitude c = JNum (- 73.9)
                \<and> c_collar_id c = JStr ''C-7'')
         \<and> filter (\<lambda>r. row_key numeric_platform r \<noteq> JNum 7) (current_locations s')
             = filter (\<lambda>r. row_key numeric_platform r \<noteq> JNum 7) (current_locations tracked_sys))"
proof -
  have h1: "\<not> truthy (update_id report7)" "\<not> truthy (body_id report7)"
    by (simp_all add: sample_defs)
  have h2: "latitude report7 = JNum 40.1" "longitude report7 = JNum (- 73.9)"
    by (simp_all add: sample_defs)
  have h3: "truthy (animal_id report7) \<or> truthy (collar_id report7)"
    by (simp add: sample_defs)
  have h4: "query1 all_well = Resolved JUndefined None" "query2 all_well = Resolved JUndefined None"
    by (simp_all add: sample_defs)
  have h5: "distinct (map (row_key numeric_platform) (current_locations tracked_sys))"
    by (simp add: sample_defs row_key_def)
  have h6: "JNum 7 = unique_key numeric_platform (default_null (animal_id report7))
              (default_null (collar_id report7))"
    by (simp add: sample_defs default_null_def)
  have h7: "\<exists>old\<in>set (current_locations tracked_sys). row_key numeric_platform old = JNum 7"
    by (simp add: sample_defs row_key_def)
  have h8: "c_collar_id old = JStr ''C-7''"
    if "old \<in> set (current_locations tracked_sys)" "row_key numeric_platform old = JNum 7" for old
    using that by (auto simp add: sample_defs row_key_def)
  have h9: "length (animal_locations tracked_sys) = 1"
    by (simp add: sample_defs)
  let ?s' = "snd (ingest numeric_platform all_well report7 tracked_sys)"
  from ingest_attributed_report [OF h1 h2 h3 h4 h5 h6, of JNull JNull JNull JNull]
  have ok: "r_success (fst (ingest numeric_platform all_well report7 tracked_sys))"
    and hist: "\<exists>h. animal_locations ?s' = animal_locations tracked_sys @ [h]"
    and cur: "\<exists>c. filter (\<lambda>r. row_key numeric_platform r = JNum 7) (current_locations ?s') = [c]
                \<and> c_latitude c = JNum 40.1 \<and> c_longitude c = JNum (- 73.9)
                \<and> (\<forall>old\<in>set (current_locations tracked_sys).
                      row_key numeric_platform old = JNum 7 \<longrightarrow>
                      c_animal_id c = c_animal_id old \<and> c_collar_id c = c_collar_id old)"
    and rest: "filter (\<lambda>r. row_key numeric_platform r \<noteq> JNum 7) (current_locations ?s')
             = filter (\<lambda>r. row_key numeric_platform r \<noteq> JNum 7) (current_locations tracked_sys)"
    by (auto simp add: case_prod_beta)
  from hist h9 have len: "length (animal_locations ?s') = 2"
    by auto
  from cur h7 h8 have cur': "\<exists>c. filter (\<lambda>r. row_key numeric_platform r = JNum 7) (current_locations ?s') = [c]
                \<and> c_latitude c = JNum 40.1 \<and> c_longitude c = JNum (- 73.9)
                \<and> c_collar_id c = JStr ''C-7''"
    by metis
  from h1 h2 h3 h5 h7 ok len cur' rest show ?thesis
    by (simp add: case_prod_beta)
qed

section \<open>Location ingestion: raw points\<close>





section \<open>Location ingestion: corrections\<close>















section \<open>Location ingestion: failures of the two writes\<close>

text \<open>
  A failure of the \<open>INSERT\<close> into \<open>animal_locations\<close>, reported or thrown, ends the call
  with status 500: no other statement is issued, nothing is stored, nothing is emitted.
\<close>

lemma history_failure_is_fatal:
  assumes "\<not> truthy (update_id b)" "\<not> truthy (body_id b)"
      and "\<not> loosely_null (latitude b)" "\<not> loosely_null (longitude b)"
      and "truthy (animal_id b) \<or> truthy (collar_id b)"
      and "query1 w = Failed e \<or> query1 w = Thrown e"
  shows "case ingest P w b s of (resp, s') \<Rightarrow>
           http_status resp = 500 \<and> \<not> r_success resp
           \<and> animal_locations s' = animal_locations s
           \<and> current_locations s' = current_locations s
           \<and> emitted s' = emitted s
           \<and> issued s' = issued s @
                [InsertHistory (history_params (history_row P (clock1 w) (destructure b)))]"
proof -
  have route: "ingest P w b s = ingest_entity P w (destructure b) s"
    using assms(1-5) by (rule ingest_routes_entity)
  from assms(6) show ?thesis
    unfolding route
    by (auto simp add: ingest_entity_def Let_def issue_def route_error_def warn_def reply_def)
qed

text \<open>
  An upsert of \<open>current_locations\<close> that throws after a successful \<open>INSERT\<close> is logged,
  the event is not emitted, and the call reports success with the history row stored.
\<close>

lemma thrown_upsert_is_logged:
  assumes "\<not> truthy (update_id b)" "\<not> truthy (body_id b)"
      and "\<not> loosely_null (latitude b)" "\<not> loosely_null (longitude b)"
      and "truthy (animal_id b) \<or> truthy (collar_id b)"
      and "query1 w = Resolved i d" "query2 w = Thrown e"
  shows "case ingest P w b s of (resp, s') \<Rightarrow>
           http_status resp = 200 \<and> r_success resp
           \<and> length (animal_locations s') = Suc (length (animal_locations s))
           \<and> current_locations s' = current_locations s
           \<and> emitted s' = emitted s
           \<and> console s' = console s @ [''Failed to upsert current_locations:'']"
proof -
  have route: "ingest P w b s = ingest_entity P w (destructure b) s"
    using assms(1-5) by (rule ingest_routes_entity)
  from assms(6,7) show ?thesis
    unfolding route
    by (simp add: ingest_entity_def Let_def issue_def insert_history_def warn_def reply_def)
qed

text \<open>
  An upsert that resolves to a failure object after a successful \<open>INSERT\<close>: the handler
  does not read the object. Nothing is logged and the event is emitted.
\<close>

lemma failed_upsert_is_not_noticed:
  assumes "\<not> truthy (update_id b)" "\<not> truthy (body_id b)"
      and "\<not> loosely_null (latitude b)" "\<not> loosely_null (longitude b)"
      and "truthy (animal_id b) \<or> truthy (collar_id b)"
      and "query1 w = Resolved i d" "query2 w = Failed e" "\<not> emit_throws w"
  shows "case ingest P w b s of (resp, s') \<Rightarrow>
           http_status resp = 200 \<and> r_success resp
           \<and> length (animal_locations s') = Suc (length (animal_locations s))
           \<and> current_locations s' = current_locations s
           \<and> emitted s' = emitted s @ [live_event (current_row P (clock2 w) (destructure b))]
           \<and> console s' = console s"
proof -
  have route: "ingest P w b s = ingest_entity P w (destructure b) s"
    using assms(1-5) by (rule ingest_routes_entity)
  from assms(6-8) show ?thesis
    unfolding route
    by (simp add: ingest_entity_def Let_def issue_def insert_history_def warn_def reply_def
        emit_def)
qed

text \<open>
  C1, at the report \<open>{latitude: 40.1, longitude: -73.9, animal_id: 7}\<close> on an empty
  store, when the \<open>INSERT\<close> succeeds and the upsert resolves to
  \<open>{success: false}\<close>: the call reports success and the history row is stored, but
  nothing is logged and the live event is emitted, although \<open>current_locations\<close> has
  no row.
\<close>

theorem failed_upsert_still_publishes:
  "(case ingest numeric_platform upsert_refused report7 empty_sys of (resp, s') \<Rightarrow>
      http_status resp = 200 \<and> r_success resp
      \<and> map h_id (animal_locations s') = [1]
      \<and> current_locations s' = []
      \<and> issued s' =
           [InsertHistory [JNum 7, JNull, JNum 40.1, JNum (- 73.9), JNull, JNull, JNull, JNull,
              JDate 1000, JNull, JNull, JNull],
            UpsertCurrent [JNum 7, JNull, JNum 40.1, JNum (- 73.9), JDate 1001, JNull, JNull,
              JNull]]
      \<and> console s' = []
      \<and> emitted s' =
           [\<lparr>e_animal_id = JNum 7, e_collar_id = JNull, e_latitude = JNum 40.1,
             e_longitude = JNum (- 73.9), e_recorded_at = JDate 1001, e_battery_level = JNull,
             e_signal_quality = JNull, e_temperature_celsius = JNull\<rparr>])"
  by (simp add: upsert_refused_def sample_defs ingest_def ingest_entity_def destructure_def
      js_or_def default_null_def loosely_null_def history_row_def history_params_def
      current_row_def current_params_def live_event_def warn_def issue_def emit_def reply_def
      stamp_def insert_history_def Number_def)

section \<open>Virtual fences: validation\<close>

text \<open>
  A latitude, longitude or radius whose number lies outside its range is answered
  with status 400 and nothing is inserted.
\<close>

lemma fence_out_of_range_rejected:
  assumes "(to_number P (f_center_latitude b) = Num x \<and> (x < - 90 \<or> 90 < x))
           \<or> (to_number P (f_center_longitude b) = Num x \<and> (x < - 180 \<or> 180 < x))
           \<or> (to_number P (f_radius_meters b) = Num x \<and> (x < 50 \<or> 10000 < x))"
  shows "fr_status (fst (createVirtualFence P q b s)) = 400
         \<and> \<not> fr_success (fst (createVirtualFence P q b s))
         \<and> snd (createVirtualFence P q b s) = s"
  using assms
  by (auto simp add: createVirtualFence_def js_lt_def js_gt_def fence_reply_def)

text \<open>
  A named fence whose latitude, longitude and radius are numbers within their ranges,
  none of them zero, is inserted and answered with status 201 when the statement
  succeeds.
\<close>

lemma fence_in_range_accepted:
  assumes "truthy (f_name b)"
      and "f_center_latitude b = JNum la" "la \<noteq> 0" "- 90 \<le> la" "la \<le> 90"
      and "f_center_longitude b = JNum lo" "lo \<noteq> 0" "- 180 \<le> lo" "lo \<le> 180"
      and "f_radius_meters b = JNum r" "50 \<le> r" "r \<le> 10000"
  shows "createVirtualFence P (Resolved i (Some d)) b s =
           (fence_reply 201 True ''Virtual fence created successfully'' (d_insertId d),
            insert_fence (fence_of b) s)"
  using assms
  by (simp add: createVirtualFence_def js_lt_def js_gt_def)

text \<open>
  C8, at the fence \<open>{name: 'North paddock', center_latitude: 0, center_longitude: 36.8,
  radius_meters: 500}\<close>: the latitude is within \<open>[-90, 90]\<close>, and the request is
  answered with status 400 as if a required field were missing; nothing is inserted.
\<close>

theorem fence_on_equator_rejected:
  "createVirtualFence numeric_platform (inserted_as 1) equator_paddock empty_fence_sys =
     (fence_reply 400 False ''Name, coordinates, and radius are required'' JUndefined,
      empty_fence_sys)
   \<and> createVirtualFence numeric_platform (inserted_as 1) paddock empty_fence_sys =
     (fence_reply 201 True ''Virtual fence created successfully'' (JNum 1),
      insert_fence (fence_of paddock) empty_fence_sys)"
  by (simp add: createVirtualFence_def equator_paddock_def paddock_def inserted_as_def
      js_lt_def js_gt_def numeric_platform_def)

theorem fence_on_equator_rejected_witness:
  "truthy (f_name equator_paddock)
   \<and> to_number numeric_platform (f_center_latitude equator_paddock) = Num 0
   \<and> fr_status (fst (createVirtualFence numeric_platform (inserted_as 1) equator_paddock
         empty_fence_sys)) = 400
   \<and> virtual_fences (snd (createVirtualFence numeric_platform (inserted_as 1) equator_paddock
         empty_fence_sys)) = []
   \<and> length (virtual_fences (snd (createVirtualFence numeric_platform (inserted_as 1) paddock
         empty_fence_sys))) = 1"
  using fence_on_equator_rejected
  by (simp add: fence_reply_def empty_fence_sys_def insert_fence_def equator_paddock_def
      paddock_def)

section \<open>Remote configuration: enqueueing commands\<close>

lemma new_Date_integer:
  assumes "\<bar>t\<bar> \<le> 8640000000000000"
  shows "new_Date (Num (real_of_int t)) = JDate t"
proof -
  have "\<bar>real_of_int t\<bar> \<le> 8640000000000000"
    using assms by linarith
  then show ?thesis
    by (simp add: new_Date_def)
qed

lemma expiry_default:
  assumes "\<not> truthy hours" and "\<bar>now + n * 3600000\<bar> \<le> 8640000000000000"
  shows "expiry P now hours (real_of_int n) = JDate (now + n * 3600000)"
proof -
  have e: "expiry P now hours (real_of_int n) =
             new_Date (Num (real_of_int now + real_of_int n * 60 * 60 * 1000))"
    using assms(1) by (simp add: expiry_def js_or_def)
  have v: "real_of_int now + real_of_int n * 60 * 60 * 1000 = real_of_int (now + n * 3600000)"
    by simp
  show ?thesis
    unfolding e v by (rule new_Date_integer) (rule assms(2))
qed

lemma expiry_supplied:
  assumes "n \<noteq> 0" and "\<bar>now + n * 3600000\<bar> \<le> 8640000000000000"
  shows "expiry P now (JNum (real_of_int n)) dflt = JDate (now + n * 3600000)"
proof -
  have e: "expiry P now (JNum (real_of_int n)) dflt =
             new_Date (Num (real_of_int now + real_of_int n * 60 * 60 * 1000))"
    using assms(1) by (simp add: expiry_def js_or_def)
  have v: "real_of_int now + real_of_int n * 60 * 60 * 1000 = real_of_int (now + n * 3600000)"
    by simp
  show ?thesis
    unfolding e v by (rule new_Date_integer) (rule assms(2))
qed

lemma config_issue_commands [simp]:
  "device_commands (config_issue q s) = device_commands s"
  "dc_auto_increment (config_issue q s) = dc_auto_increment s"
  "system_settings (config_issue q s) = system_settings s"
  by (simp_all add: config_issue_def)

lemma config_log_commands [simp]:
  "device_commands (config_log m s) = device_commands s"
  "system_settings (config_log m s) = system_settings s"
  "cs_issued (config_log m s) = cs_issued s"
  by (simp_all add: config_log_def)

lemmas config_defs = updateRemoteConfig_def enqueue_commands_def enqueue_wifi_def
  update_defaults_def finish_defaults_def config_error_def insert_command_def initial_status_def

text \<open>
  Whatever the request and the outcomes, the queue keeps its commands and grows by at
  most two, all pending and of different types.
\<close>

lemma enqueue_at_most_two:
  "length (device_commands (snd (updateRemoteConfig P w b s))) \<le> length (device_commands s) + 2
   \<and> take (length (device_commands s)) (device_commands (snd (updateRemoteConfig P w b s)))
       = device_commands s
   \<and> list_all (\<lambda>c. cmd_status c = Pending)
        (drop (length (device_commands s)) (device_commands (snd (updateRemoteConfig P w b s))))
   \<and> distinct (map cmd_type
        (drop (length (device_commands s)) (device_commands (snd (updateRemoteConfig P w b s)))))"
  by (simp add: config_defs Let_def split: qres.split)

text \<open>
  C6. For a request with a \<open>device_id\<close> whose inserts succeed: each command is created
  pending, for that device, expiring at \<open>now + ttl\<close>, where ttl is \<open>expires_hours\<close>
  hours when the request supplies a whole number of hours and, when it supplies none,
  one hour for a control command and 24 hours for a wifi_update command; a control
  command is created when \<open>soundEnabled\<close> or \<open>lightsEnabled\<close> is defined, then a
  wifi_update command when \<open>wifiSSID\<close> or \<open>wifiPassword\<close> is supplied, so a request
  with both kinds of field creates two commands, one of each type. Whatever the
  request and the outcomes, at most two commands are added, of different types.
\<close>

theorem enqueue_creates_pending_commands:
  assumes dev: "truthy (cfg_device_id b)"
      and hours: "cfg_expires_hours b = JUndefined
                  \<or> (cfg_expires_hours b = JNum (real_of_int h) \<and> h \<noteq> 0)"
      and ttl: "ttl_control = (if cfg_expires_hours b = JUndefined then 1 else h)"
               "ttl_wifi = (if cfg_expires_hours b = JUndefined then 24 else h)"
      and range: "\<bar>cw_now w + ttl_control * 3600000\<bar> \<le> 8640000000000000"
                 "\<bar>cw_now w + ttl_wifi * 3600000\<bar> \<le> 8640000000000000"
      and ok: "cw_query1 w = Resolved i d" "cw_query2 w = Resolved i' d'"
  shows "(case updateRemoteConfig P w b s of (resp, s') \<Rightarrow>
            cr_status resp = 200 \<and> cr_success resp
            \<and> device_commands s' = device_commands s
                @ (if control_requested b
                   then [\<lparr>cmd_id = dc_auto_increment s, cmd_device_id = cfg_device_id b,
                          cmd_type = Control, cmd_payload = control_payload b,
                          cmd_expires_at = JDate (cw_now w + ttl_control * 3600000),
                          cmd_status = Pending\<rparr>]
                   else [])
                @ (if wifi_requested b
                   then [\<lparr>cmd_id = (if control_requested b then Suc (dc_auto_increment s)
                                     else dc_auto_increment s),
                          cmd_device_id = cfg_device_id b,
                          cmd_type = WifiUpdate, cmd_payload = wifi_payload b,
                          cmd_expires_at = JDate (cw_now w + ttl_wifi * 3600000),
                          cmd_status = Pending\<rparr>]
                   else [])
            \<and> map fst (cr_inserted resp)
                = (if control_requested b then [Control] else [])
                  @ (if wifi_requested b then [WifiUpdate] else []))
         \<and> length (device_commands (snd (updateRemoteConfig P w0 b0 s0)))
             \<le> length (device_commands s0) + 2
         \<and> take (length (device_commands s0)) (device_commands (snd (updateRemoteConfig P w0 b0 s0)))
             = device_commands s0
         \<and> list_all (\<lambda>c. cmd_status c = Pending)
              (drop (length (device_commands s0))
                (device_commands (snd (updateRemoteConfig P w0 b0 s0))))
         \<and> distinct (map cmd_type
              (drop (length (device_commands s0))
                (device_commands (snd (updateRemoteConfig P w0 b0 s0)))))"
proof -
  have e1: "expiry P (cw_now w) (cfg_expires_hours b) 1 = JDate (cw_now w + ttl_control * 3600000)"
  proof (cases "cfg_expires_hours b = JUndefined")
    case True
    with expiry_default [of "cfg_expires_hours b" "cw_now w" 1 P] range(1) ttl(1)
    show ?thesis by simp
  next
    case False
    with hours have "cfg_expires_hours b = JNum (real_of_int h)" "h \<noteq> 0"
      by simp_all
    with expiry_supplied [of h "cw_now w" P 1] range(1) ttl(1) False
    show ?thesis by simp
  qed
  have e24: "expiry P (cw_now w) (cfg_expires_hours b) 24 = JDate (cw_now w + ttl_wifi * 3600000)"
  proof (cases "cfg_expires_hours b = JUndefined")
    case True
    with expiry_default [of "cfg_expires_hours b" "cw_now w" 24 P] range(2) ttl(2)
    show ?thesis by simp
  next
    case False
    with hours have "cfg_expires_hours b = JNum (real_of_int h)" "h \<noteq> 0"
      by simp_all
    with expiry_supplied [of h "cw_now w" P 24] range(2) ttl(2) False
    show ?thesis by simp
  qed
  have main: "case updateRemoteConfig P w b s of (resp, s') \<Rightarrow>
            cr_status resp = 200 \<and> cr_success resp
            \<and> device_commands s' = device_commands s
                @ (if control_requested b
                   then [\<lparr>cmd_id = dc_auto_increment s, cmd_device_id = cfg_device_id b,
                          cmd_type = Control, cmd_payload = control_payload b,
                          cmd_expires_at = JDate (cw_now w + ttl_control * 3600000),
                          cmd_status = Pending\<rparr>]
                   else [])
                @ (if wifi_requested b
                   then [\<lparr>cmd_id = (if control_requested b then Suc (dc_auto_increment s)
                                     else dc_auto_increment s),
                          cmd_device_id = cfg_device_id b,
                          cmd_type = WifiUpdate, cmd_payload = wifi_payload b,
                          cmd_expires_at = JDate (cw_now w + ttl_wifi * 3600000),
                          cmd_status = Pending\<rparr>]
                   else [])
            \<and> map fst (cr_inserted resp)
                = (if control_requested b then [Control] else [])
                  @ (if wifi_requested b then [WifiUpdate] else [])"
    using dev ok
    by (simp add: updateRemoteConfig_def enqueue_commands_def enqueue_wifi_def insert_command_def
        initial_status_def config_reply_def Let_def e1 e24)
  from main enqueue_at_most_two [of P w0 b0 s0] show ?thesis
    by blast
qed

theorem enqueue_creates_pending_commands_witness:
  "truthy (cfg_device_id both_kinds) \<and> cfg_expires_hours both_kinds = JUndefined
   \<and> control_requested both_kinds \<and> wifi_requested both_kinds
   \<and> cw_query1 inserts_succeed = inserted_as 1 \<and> cw_query2 inserts_succeed = inserted_as 2
   \<and> (case updateRemoteConfig numeric_platform inserts_succeed both_kinds empty_config_sys of
         (resp, s') \<Rightarrow>
           cr_status resp = 200 \<and> cr_success resp
           \<and> device_commands s' =
               [\<lparr>cmd_id = 1, cmd_device_id = JNum 5, cmd_type = Control,
                 cmd_payload = ControlPayload (Some True) None,
                 cmd_expires_at = JDate 3601000, cmd_status = Pending\<rparr>,
                \<lparr>cmd_id = 2, cmd_device_id = JNum 5, cmd_type = WifiUpdate,
                 cmd_payload = WifiPayload (JStr ''barn'') (JStr ''hay''),
                 cmd_expires_at = JDate 86401000, cmd_status = Pending\<rparr>]
           \<and> map fst (cr_inserted resp) = [Control, WifiUpdate])"
proof -
  have h1: "truthy (cfg_device_id both_kinds)"
    by (simp add: both_kinds_def empty_config_def)
  have h2: "cfg_expires_hours both_kinds = JUndefined"
    by (simp add: both_kinds_def empty_config_def)
  have h3: "(1::int) = (if cfg_expires_hours both_kinds = JUndefined then 1 else 1)"
    "(24::int) = (if cfg_expires_hours both_kinds = JUndefined then 24 else 1)"
    by (simp_all add: h2)
  have h4: "\<bar>cw_now inserts_succeed + 1 * 3600000\<bar> \<le> 8640000000000000"
    "\<bar>cw_now inserts_succeed + 24 * 3600000\<bar> \<le> 8640000000000000"
    by (simp_all add: inserts_succeed_def)
  have h5: "cw_query1 inserts_succeed = Resolved JUndefined (Some \<lparr>d_insertId = JNum 1, d_insert_id = JUndefined\<rparr>)"
    "cw_query2 inserts_succeed = Resolved JUndefined (Some \<lparr>d_insertId = JNum 2, d_insert_id = JUndefined\<rparr>)"
    by (simp_all add: inserts_succeed_def inserted_as_def)
  have h6: "control_requested both_kinds" "wifi_requested both_kinds"
    by (simp_all add: control_requested_def wifi_requested_def js_or_def both_kinds_def
        empty_config_def)
  have v: "device_commands empty_config_sys = []" "dc_auto_increment empty_config_sys = 1"
    "cfg_device_id both_kinds = JNum 5" "cw_now inserts_succeed = 1000"
    "control_payload both_kinds = ControlPayload (Some True) None"
    "wifi_payload both_kinds = WifiPayload (JStr ''barn'') (JStr ''hay'')"
    by (simp_all add: empty_config_sys_def both_kinds_def empty_config_def inserts_succeed_def
        control_payload_def wifi_payload_def js_or_def)
  from enqueue_creates_pending_commands [OF h1 disjI1 [OF h2] h3 h4 h5,
      where P = numeric_platform and s = empty_config_sys]
  have "case updateRemoteConfig numeric_platform inserts_succeed both_kinds empty_config_sys of
         (resp, s') \<Rightarrow>
           cr_status resp = 200 \<and> cr_success resp
           \<and> device_commands s' =
               [\<lparr>cmd_id = 1, cmd_device_id = JNum 5, cmd_type = Control,
                 cmd_payload = ControlPayload (Some True) None,
                 cmd_expires_at = JDate 3601000, cmd_status = Pending\<rparr>,
                \<lparr>cmd_id = 2, cmd_device_id = JNum 5, cmd_type = WifiUpdate,
                 cmd_payload = WifiPayload (JStr ''barn'') (JStr ''hay''),
                 cmd_expires_at = JDate 86401000, cmd_status = Pending\<rparr>]
           \<and> map fst (cr_inserted resp) = [Control, WifiUpdate]"
    using h6 unfolding v by (simp add: case_prod_beta)
  with h1 h2 h6 show ?thesis
    by (simp add: inserts_succeed_def)
qed

section \<open>Device alerts: truncation and the mail\<close>

lemma cap_take: "cap n raw = take n raw"
  by (simp add: cap_def)

lemma cap_title_string: "cap_title P (JStr t) = Some (JStr (take 255 t))"
  by (simp add: cap_title_def js_gt_def MAX_TITLE_def)

lemma cap_title_bound: "cap_title P raw = Some (JStr t) \<Longrightarrow> length t \<le> 255"
  by (cases raw) (auto simp add: cap_title_def js_gt_def MAX_TITLE_def split: if_splits)

text \<open>A title that is neither an array nor an object passes its cap.\<close>

lemma cap_title_scalar:
  assumes "\<forall>xs. raw \<noteq> JArray xs" "\<forall>fs. raw \<noteq> JObject fs"
  shows "\<exists>title. cap_title P raw = Some title"
  using assms by (cases raw) (simp_all add: cap_title_def js_gt_def)

lemma alerts_notify: "alerts (notify P w a s) = alerts s"
  by (simp add: notify_def)

lemma handleAlert_resolved:
  assumes "aw_query w = Resolved i d" "cap_title P (raw_title p) = Some title"
  shows "fst (handleAlert P w p s) =
           \<lparr>ar_status = 201, ar_success = True, ar_message = ''Alert recorded'',
            ar_id = inserted_id d, ar_error = None\<rparr>"
    and "alerts (snd (handleAlert P w p s)) =
           alerts s @ [(alert_of P p title)\<lparr>a_id := al_auto_increment s\<rparr>]"
  using assms by (simp_all add: handleAlert_def Let_def alerts_notify insert_alert_def)

text \<open>
  When the title passes its cap and the \<open>INSERT\<close> succeeds, the alert is stored and
  answered with status 201: \<open>alert_type\<close> and \<open>severity\<close> are the first 100 and 32
  characters of the supplied (or default) text, a title that is a string is cut to its
  first 255 characters, and neither the answer nor the stored alerts depend on whether
  a mail is configured or on whether sending it fails.
\<close>

lemma alert_capped_when_title_passes:
  assumes ok: "aw_query w = Resolved i d"
      and passes: "cap_title P (raw_title p) = Some title"
  shows "case handleAlert P w p s of (resp, s') \<Rightarrow>
           ar_status resp = 201 \<and> ar_success resp
           \<and> (\<exists>a. alerts s' = alerts s @ [a]
                  \<and> a_alert_type a = take 100 (raw_alert_type P p)
                  \<and> length (a_alert_type a) \<le> 100
                  \<and> a_severity a = take 32 (raw_severity P p)
                  \<and> length (a_severity a) \<le> 32
                  \<and> a_title a = title
                  \<and> (\<forall>t. raw_title p = JStr t \<longrightarrow> a_title a = JStr (take 255 t))
                  \<and> (\<forall>t. a_title a = JStr t \<longrightarrow> length t \<le> 255))
           \<and> resp = fst (handleAlert P (w\<lparr>aw_smtp_configured := c, aw_send_throws := e\<rparr>) p s)
           \<and> alerts s' =
               alerts (snd (handleAlert P (w\<lparr>aw_smtp_configured := c, aw_send_throws := e\<rparr>) p s))"
proof -
  let ?w' = "w\<lparr>aw_smtp_configured := c, aw_send_throws := e\<rparr>"
  let ?a = "(alert_of P p title)\<lparr>a_id := al_auto_increment s\<rparr>"
  have ok': "aw_query ?w' = Resolved i d"
    using ok by simp
  have resp: "ar_status (fst (handleAlert P w p s)) = 201" "ar_success (fst (handleAlert P w p s))"
    by (simp_all add: handleAlert_resolved(1) [OF ok passes])
  have same: "fst (handleAlert P w p s) = fst (handleAlert P ?w' p s)"
    "alerts (snd (handleAlert P w p s)) = alerts (snd (handleAlert P ?w' p s))"
    by (simp_all only: handleAlert_resolved [OF ok passes] handleAlert_resolved [OF ok' passes])
  have ty: "a_alert_type ?a = take 100 (raw_alert_type P p)" "length (a_alert_type ?a) \<le> 100"
    by (simp_all add: alert_of_def cap_take MAX_ALERT_TYPE_def)
  have sev: "a_severity ?a = take 32 (raw_severity P p)" "length (a_severity ?a) \<le> 32"
    by (simp_all add: alert_of_def cap_take MAX_SEVERITY_def)
  have title: "a_title ?a = title"
    by (simp add: alert_of_def)
  have t1: "\<forall>t. raw_title p = JStr t \<longrightarrow> a_title ?a = JStr (take 255 t)"
    using passes by (auto simp add: title cap_title_string)
  have t2: "\<forall>t. a_title ?a = JStr t \<longrightarrow> length t \<le> 255"
    using passes unfolding title by (blast dest: cap_title_bound)
  have row: "\<exists>a. alerts (snd (handleAlert P w p s)) = alerts s @ [a]
                  \<and> a_alert_type a = take 100 (raw_alert_type P p)
                  \<and> length (a_alert_type a) \<le> 100
                  \<and> a_severity a = take 32 (raw_severity P p)
                  \<and> length (a_severity a) \<le> 32
                  \<and> a_title a = title
                  \<and> (\<forall>t. raw_title p = JStr t \<longrightarrow> a_title a = JStr (take 255 t))
                  \<and> (\<forall>t. a_title a = JStr t \<longrightarrow> length t \<le> 255)"
    using ty sev title t1 t2
    by (intro exI [of _ ?a]) (simp only: handleAlert_resolved(2) [OF ok passes] simp_thms)
  from resp same row show ?thesis
    by (simp add: case_prod_beta)
qed

text \<open>Three over-long strings, with the mail configured and failing.\<close>

lemma long_strings_are_cut:
  "(case handleAlert numeric_platform mail_down long_alert empty_alert_sys of (resp, s') \<Rightarrow>
      ar_status resp = 201 \<and> ar_success resp
      \<and> map a_alert_type (alerts s') = [replicate 100 CHR ''t'']
      \<and> map a_severity (alerts s') = [replicate 32 CHR ''s'']
      \<and> map a_title (alerts s') = [JStr (replicate 255 CHR ''x'')]
      \<and> outbox s' = []
      \<and> al_console s' =
          [''Truncated alert_type from'', ''Truncated severity from'', ''Truncated title from'',
           ''Failed to send alert email:''])"
  by (simp add: handleAlert_def cap_title_def raw_title_def raw_alert_type_def raw_severity_def
      truncation_warnings_def alert_of_def cap_def js_gt_def js_or_def notify_def insert_alert_def
      Let_def inserted_id_def long_alert_def empty_payload_def mail_down_def inserted_as_def
      empty_alert_sys_def MAX_TITLE_def MAX_ALERT_TYPE_def MAX_SEVERITY_def)

text \<open>
  C9, at the payloads \<open>{title: [...]}\<close> with an array of 256 elements and
  \<open>{alert: {length: 300}}\<close>, when the \<open>INSERT\<close> would succeed: the over-long title is
  not cut. The cap throws, the call is answered with status 500 and the alert is not
  stored.
\<close>

theorem array_title_drops_the_alert:
  "truthy (raw_title array_title) \<and> truthy (raw_title object_title)
   \<and> aw_query insert_succeeds = inserted_as 1
   \<and> handleAlert numeric_platform insert_succeeds array_title empty_alert_sys =
       (\<lparr>ar_status = 500, ar_success = False, ar_message = ''Internal server error'',
         ar_id = JUndefined, ar_error = None\<rparr>,
        empty_alert_sys\<lparr>al_console := [''Device alert route error:'']\<rparr>)
   \<and> handleAlert numeric_platform insert_succeeds object_title empty_alert_sys =
       (\<lparr>ar_status = 500, ar_success = False, ar_message = ''Internal server error'',
         ar_id = JUndefined, ar_error = None\<rparr>,
        empty_alert_sys\<lparr>al_console := [''Device alert route error:'']\<rparr>)
   \<and> alerts (snd (handleAlert numeric_platform insert_succeeds array_title empty_alert_sys)) = []"
  by (simp add: handleAlert_def alert_error_def cap_title_def raw_title_def js_gt_def js_or_def
      array_title_def object_title_def empty_payload_def insert_succeeds_def
      empty_alert_sys_def MAX_TITLE_def)

section \<open>Remote configuration: wifi credentials\<close>

lemma settings_updates_ignore_wifi:
  "settings_updates (b\<lparr>cfg_wifiSSID := x, cfg_wifiPassword := y\<rparr>) = settings_updates b"
  by (simp add: settings_updates_def)

lemma config_issue_issued [simp]: "cs_issued (config_issue q s) = cs_issued s @ [q]"
  by (simp add: config_issue_def)

lemma insert_command_other [simp]:
  "system_settings (insert_command dev ty pl ex s) = system_settings s"
  "cs_issued (insert_command dev ty pl ex s) = cs_issued s"
  by (simp_all add: insert_command_def)

lemma finish_defaults_store [simp]:
  "system_settings (snd (finish_defaults b s)) = system_settings s"
  "device_commands (snd (finish_defaults b s)) = device_commands s"
  "cs_issued (snd (finish_defaults b s)) = cs_issued s"
  by (simp_all add: finish_defaults_def)

lemma enqueue_wifi_store [simp]:
  "system_settings (snd (enqueue_wifi P w q b ins s)) = system_settings s"
  "filter is_settings_update (cs_issued (snd (enqueue_wifi P w q b ins s)))
     = filter is_settings_update (cs_issued s)"
  by (simp_all add: enqueue_wifi_def Let_def config_error_def split: qres.split)

lemma enqueue_commands_store:
  "system_settings (snd (enqueue_commands P w b s)) = system_settings s"
  "filter is_settings_update (cs_issued (snd (enqueue_commands P w b s)))
     = filter is_settings_update (cs_issued s)"
  by (simp_all add: enqueue_commands_def Let_def config_error_def split: qres.split)

lemma update_defaults_store:
  "system_settings (snd (update_defaults w b s)) =
     (case cw_query1 w of
        Resolved i d \<Rightarrow> update_settings (settings_updates b) (system_settings s)
      | _ \<Rightarrow> system_settings s)"
  "cs_issued (snd (update_defaults w b s)) =
     cs_issued s @ (if settings_updates b = [] then [] else [UpdateSettings (settings_updates b)])"
  "device_commands (snd (update_defaults w b s)) = device_commands s"
  by (simp_all add: update_defaults_def Let_def update_settings_def split: qres.split)

text \<open>
  The rows of \<open>system_settings\<close> and the statements issued on that table are the same
  whatever \<open>wifiSSID\<close> and \<open>wifiPassword\<close> the request carries, and a request
  without \<open>device_id\<close> stores no command. Such a request, when it supplies
  \<open>wifiSSID\<close> or \<open>wifiPassword\<close>, reaches the 400 reply if it defines no setting or
  its update of the settings succeeds; if that update fails, the handler has returned
  before.
\<close>

lemma wifi_credentials_never_in_settings:
  "case updateRemoteConfig P w b s of (resp, s') \<Rightarrow>
     system_settings s' =
       system_settings (snd (updateRemoteConfig P w (b\<lparr>cfg_wifiSSID := x, cfg_wifiPassword := y\<rparr>) s))
     \<and> filter is_settings_update (cs_issued s') =
         filter is_settings_update
           (cs_issued (snd (updateRemoteConfig P w (b\<lparr>cfg_wifiSSID := x, cfg_wifiPassword := y\<rparr>) s)))
     \<and> (\<not> truthy (cfg_device_id b) \<longrightarrow> device_commands s' = device_commands s)
     \<and> (\<not> truthy (cfg_device_id b) \<and> wifi_requested b
          \<and> (settings_updates b = [] \<or> (\<exists>i d. cw_query1 w = Resolved i d))
          \<longrightarrow> cr_status resp = 400 \<and> \<not> cr_success resp)
     \<and> (\<not> truthy (cfg_device_id b) \<and> settings_updates b \<noteq> []
          \<and> (\<forall>i d. cw_query1 w \<noteq> Resolved i d)
          \<longrightarrow> cr_status resp = 200 \<and> cr_success resp
              \<and> system_settings s' = system_settings s)"
proof -
  let ?b' = "b\<lparr>cfg_wifiSSID := x, cfg_wifiPassword := y\<rparr>"
  let ?r = "updateRemoteConfig P w b s"
  have s1: "system_settings (snd ?r) = system_settings (snd (updateRemoteConfig P w ?b' s))"
    by (simp add: updateRemoteConfig_def enqueue_commands_store update_defaults_store
        settings_updates_ignore_wifi split: qres.split)
  have s2: "filter is_settings_update (cs_issued (snd ?r)) =
         filter is_settings_update (cs_issued (snd (updateRemoteConfig P w ?b' s)))"
    by (simp add: updateRemoteConfig_def enqueue_commands_store update_defaults_store
        settings_updates_ignore_wifi split: qres.split)
  have s3: "\<not> truthy (cfg_device_id b) \<longrightarrow> device_commands (snd ?r) = device_commands s"
    by (simp add: updateRemoteConfig_def update_defaults_store)
  have s4: "\<not> truthy (cfg_device_id b) \<and> wifi_requested b
          \<and> (settings_updates b = [] \<or> (\<exists>i d. cw_query1 w = Resolved i d))
          \<longrightarrow> cr_status (fst ?r) = 400 \<and> \<not> cr_success (fst ?r)"
    by (auto simp add: updateRemoteConfig_def update_defaults_def finish_defaults_def
        config_reply_def Let_def)
  have s5: "\<not> truthy (cfg_device_id b) \<and> settings_updates b \<noteq> []
          \<and> (\<forall>i d. cw_query1 w \<noteq> Resolved i d)
          \<longrightarrow> cr_status (fst ?r) = 200 \<and> cr_success (fst ?r)
              \<and> system_settings (snd ?r) = system_settings s"
    by (cases "cw_query1 w")
      (simp_all add: updateRemoteConfig_def update_defaults_def accepted_def config_reply_def
        Let_def)
  from s1 s2 s3 s4 s5 show ?thesis
    unfolding case_prod_beta by blast
qed

text \<open>
  The expiry of a command is not tested: hours that lead beyond the time values give
  the \<open>INSERT\<close> an invalid Date.
\<close>

lemma expiry_beyond_time_values:
  assumes "0 \<le> now"
  shows "expiry P now (JNum 10000000000000) dflt = JInvalidDate"
proof -
  have "\<not> \<bar>real_of_int now + 10000000000000 * 60 * 60 * 1000\<bar> \<le> 8640000000000000"
    using assms by simp
  then show ?thesis
    by (simp add: expiry_def js_or_def new_Date_def)
qed

text \<open>
  C7, at the request \<open>{soundEnabled: true, wifiSSID: 'barn', wifiPassword: 'hay'}\<close>
  without \<open>device_id\<close>, when the update of \<open>system_settings\<close> resolves to a failure:
  the handler returns at its reply for a failed update and the test that rejects wifi
  fields is never run. The answer is status 200 with \<open>success\<close>. The same request
  is answered with the 400 failure when the update succeeds, and so is the request
  without \<open>soundEnabled\<close>.
\<close>

theorem wifi_without_device_not_rejected:
  "\<not> truthy (cfg_device_id wifi_and_sound)
   \<and> truthy (cfg_wifiSSID wifi_and_sound) \<and> truthy (cfg_wifiPassword wifi_and_sound)
   \<and> cw_query1 settings_down = Failed ''ER_BAD_FIELD_ERROR''
   \<and> cr_status (fst (updateRemoteConfig numeric_platform settings_down wifi_and_sound
         empty_config_sys)) = 200
   \<and> cr_success (fst (updateRemoteConfig numeric_platform settings_down wifi_and_sound
         empty_config_sys))
   \<and> cr_message (fst (updateRemoteConfig numeric_platform settings_down wifi_and_sound
         empty_config_sys))
       = ''Accepted but system settings update may not be persisted (check schema)''
   \<and> cr_status (fst (updateRemoteConfig numeric_platform inserts_succeed wifi_and_sound
         empty_config_sys)) = 400
   \<and> cr_status (fst (updateRemoteConfig numeric_platform settings_down wifi_only
         empty_config_sys)) = 400"
  by (simp add: updateRemoteConfig_def update_defaults_def finish_defaults_def
      settings_updates_def accepted_def config_reply_def wifi_requested_def js_or_def Let_def
      wifi_and_sound_def wifi_only_def empty_config_def settings_down_def inserts_succeed_def
      inserted_as_def)

end
